theory Spec2Isabelle
  imports Main "HOL-Library.Word" "HOL-Library.Sublist"
begin

section \<open>JavaScript strings\<close>

text \<open>
  A JavaScript string is a sequence of UTF-16 code units; \<open>s.length\<close> and \<open>s[i]\<close>
  count and index code units. A code point outside the Basic Multilingual Plane is
  stored as two units, a high surrogate followed by a low surrogate.
\<close>

type_synonym code_unit = "16 word"
type_synonym jsstring = "code_unit list"

definition js :: "string \<Rightarrow> jsstring" where
  "js s = map of_char s"

definition isHighSurrogate :: "code_unit \<Rightarrow> bool" where
  "isHighSurrogate c \<longleftrightarrow> 0xD800 \<le> c \<and> c \<le> 0xDBFF"

definition isLowSurrogate :: "code_unit \<Rightarrow> bool" where
  "isLowSurrogate c \<longleftrightarrow> 0xDC00 \<le> c \<and> c \<le> 0xDFFF"

text \<open>A string consists of whole code points when every high surrogate is directly
  followed by a low surrogate and no low surrogate stands alone.\<close>

fun wholeCodePoints :: "jsstring \<Rightarrow> bool" where
  "wholeCodePoints [] = True"
| "wholeCodePoints [c] = (\<not> isHighSurrogate c \<and> \<not> isLowSurrogate c)"
| "wholeCodePoints (c # d # cs) =
     (if isHighSurrogate c then isLowSurrogate d \<and> wholeCodePoints cs
      else \<not> isLowSurrogate c \<and> wholeCodePoints (d # cs))"

text \<open>\<open>String.prototype.trim\<close> removes the ECMAScript WhiteSpace and LineTerminator
  code points from both ends.\<close>

definition isWhiteSpace :: "code_unit \<Rightarrow> bool" where
  "isWhiteSpace c \<longleftrightarrow>
     c \<in> {0x09, 0x0A, 0x0B, 0x0C, 0x0D, 0x20, 0xA0, 0x1680, 0x2028, 0x2029,
          0x202F, 0x205F, 0x3000, 0xFEFF} \<or> (0x2000 \<le> c \<and> c \<le> 0x200A)"

definition trim :: "jsstring \<Rightarrow> jsstring" where
  "trim s = rev (dropWhile isWhiteSpace (rev (dropWhile isWhiteSpace s)))"

text \<open>\<open>String.prototype.toLowerCase\<close> follows the Unicode case tables of the engine,
  which are not part of the repository: it is a field of the runtime record below, and the
  statements hold for every such function. \<open>asciiLowerCase\<close> is what every engine
  computes on a string of ASCII code units; only the concrete instances use it, on ASCII
  strings.\<close>

definition asciiLowerUnit :: "code_unit \<Rightarrow> code_unit" where
  "asciiLowerUnit c = (if 0x41 \<le> c \<and> c \<le> 0x5A then c + 0x20 else c)"

definition asciiLowerCase :: "jsstring \<Rightarrow> jsstring" where
  "asciiLowerCase s = map asciiLowerUnit s"

text \<open>\<open>toUpperCase\<close> on the ASCII letters. Its one call, in \<open>createHeader\<close>, is applied
  to the ASCII title literals of the handlers only, where this is what every engine
  computes.\<close>

definition upperUnit :: "code_unit \<Rightarrow> code_unit" where
  "upperUnit c = (if 0x61 \<le> c \<and> c \<le> 0x7A then c - 0x20 else c)"

definition toUpperCase :: "jsstring \<Rightarrow> jsstring" where
  "toUpperCase s = map upperUnit s"

text \<open>\<open>s.split(' ')\<close>: the pieces between occurrences of the separator unit; empty
  pieces are kept and the empty string gives one empty piece.\<close>

fun splitOn :: "code_unit \<Rightarrow> jsstring \<Rightarrow> jsstring list" where
  "splitOn sep [] = [[]]"
| "splitOn sep (c # cs) =
     (if c = sep then [] # splitOn sep cs
      else (case splitOn sep cs of [] \<Rightarrow> [[c]] | p # ps \<Rightarrow> (c # p) # ps))"

text \<open>\<open>xs.join(sep)\<close>\<close>

fun join :: "jsstring \<Rightarrow> jsstring list \<Rightarrow> jsstring" where
  "join sep [] = []"
| "join sep [x] = x"
| "join sep (x # y # ys) = x @ sep @ join sep (y # ys)"

text \<open>\<open>s.includes(sub)\<close>\<close>

fun includes_str :: "jsstring \<Rightarrow> jsstring \<Rightarrow> bool" where
  "includes_str [] sub = (sub = [])"
| "includes_str (c # cs) sub = (prefix sub (c # cs) \<or> includes_str cs sub)"

text \<open>\<open>s.padEnd(n)\<close> pads with spaces.\<close>

definition padEnd :: "jsstring \<Rightarrow> nat \<Rightarrow> jsstring" where
  "padEnd s n = s @ replicate (n - length s) 0x20"

text \<open>The decimal string of a non-negative integer, as string concatenation and
  template literals produce it.\<close>

fun numberToString :: "nat \<Rightarrow> jsstring" where
  "numberToString n =
     (if n < 10 then [0x30 + of_nat n]
      else numberToString (n div 10) @ [0x30 + of_nat (n mod 10)])"

declare numberToString.simps [simp del]

section \<open>Formatting (lib/formatting.ts)\<close>

datatype TerminalColor = Primary | Secondary | Accent | Warning | Error | Muted | Default

text \<open>The optional fields of a \<open>TextSegment\<close> are \<open>None\<close> when the object has no such
  property.\<close>

record TextSegment =
  seg_text :: jsstring
  seg_color :: "TerminalColor option"
  seg_bold :: "bool option"
  seg_url :: "jsstring option"

type_synonym FormattedOutput = "TextSegment list"

definition mkText :: "TerminalColor \<Rightarrow> jsstring \<Rightarrow> bool \<Rightarrow> TextSegment" where
  "mkText c str b = \<lparr>seg_text = str, seg_color = Some c, seg_bold = Some b, seg_url = None\<rparr>"

definition text_primary :: "jsstring \<Rightarrow> bool \<Rightarrow> TextSegment" where
  "text_primary = mkText Primary"

definition text_secondary :: "jsstring \<Rightarrow> bool \<Rightarrow> TextSegment" where
  "text_secondary = mkText Secondary"

definition text_accent :: "jsstring \<Rightarrow> bool \<Rightarrow> TextSegment" where
  "text_accent = mkText Accent"

definition text_warning :: "jsstring \<Rightarrow> bool \<Rightarrow> TextSegment" where
  "text_warning = mkText Warning"

definition text_error :: "jsstring \<Rightarrow> bool \<Rightarrow> TextSegment" where
  "text_error = mkText Error"

definition text_muted :: "jsstring \<Rightarrow> bool \<Rightarrow> TextSegment" where
  "text_muted = mkText Muted"

definition text_default :: "jsstring \<Rightarrow> bool \<Rightarrow> TextSegment" where
  "text_default = mkText Default"

definition linkSegment :: "jsstring \<Rightarrow> TextSegment" where
  "linkSegment u = \<lparr>seg_text = u, seg_color = Some Secondary, seg_bold = None, seg_url = Some u\<rparr>"

definition formatToString :: "FormattedOutput \<Rightarrow> jsstring" where
  "formatToString output = concat (map seg_text output)"

definition createHeader :: "jsstring \<Rightarrow> FormattedOutput" where
  "createHeader title =
     [text_primary (toUpperCase title) True, text_default (js ''\<newline>\<newline>'') False]"

definition createLink :: "jsstring \<Rightarrow> jsstring \<Rightarrow> FormattedOutput" where
  "createLink label u =
     [text_primary (padEnd label 14) False, linkSegment u, text_default (js ''\<newline>'') False]"

text \<open>\<open>createListItem\<close>: the description and the link are optional; an absent or empty
  string is falsy.\<close>

definition linkIcon :: jsstring where
  "linkIcon = js ''    '' @ [0xD83D, 0xDD17] @ js '' ''"

definition createListItem ::
  "nat \<Rightarrow> jsstring \<Rightarrow> jsstring option \<Rightarrow> jsstring option \<Rightarrow> FormattedOutput" where
  "createListItem number title description link =
     [text_default (js ''\<newline>'') False,
      text_primary (js ''['' @ numberToString number @ js ''] '') True,
      text_primary title True,
      text_default (js ''\<newline>'') False]
     @ (case description of
          None \<Rightarrow> []
        | Some d \<Rightarrow> if d = [] then []
                    else [text_muted (js ''    '' @ d) False, text_default (js ''\<newline>'') False])
     @ (case link of
          None \<Rightarrow> []
        | Some l \<Rightarrow> if l = [] then []
                    else [text_muted linkIcon False, linkSegment l,
                          text_default (js ''\<newline>'') False])"

definition createBullet :: "jsstring \<Rightarrow> jsstring \<Rightarrow> FormattedOutput" where
  "createBullet label v =
     [text_primary (js ''  '' @ [0x25B8] @ js '' '' @ label @ js '': '') True,
      text_default v False,
      text_default (js ''\<newline>'') False]"

definition combine :: "FormattedOutput list \<Rightarrow> FormattedOutput" where
  "combine outputs = concat outputs"

section \<open>The incremental renderer (components/Terminal.tsx)\<close>

text \<open>The content of a line: a plain string or a segment sequence. \<open>Undefined\<close> is the
  value read from a result object that has no \<open>content\<close> property.\<close>

datatype content = Str jsstring | Segs FormattedOutput | Undefined

datatype LineType = CommandLine | OutputLine | ErrorLine | InfoLine | WelcomeLine

record TerminalLine =
  line_id :: jsstring
  line_type :: LineType
  line_content :: content
  displayedContent :: content
  isComplete :: bool

text \<open>\<open>renderOutputLine\<close> acts on the transcript only through \<open>setLines\<close>. Its run is the
  sequence of these calls, in order: one \<open>SetDisplayed\<close> per typing tick, and the final
  \<open>SetComplete\<close>. \<open>Throw\<close> ends a run that raises a \<open>TypeError\<close>.

  Each call is followed by a timer delay before the loop goes on, and the update is taken
  to be applied within that delay: the value it stores is the one the loop holds at the
  call. The array stored is a copy; the segment objects in it are shared with the loop, which
  appends to a segment's text only in the step that stores the next copy.\<close>

datatype event = SetDisplayed jsstring content | SetComplete jsstring | Throw

fun findIndex :: "('a \<Rightarrow> bool) \<Rightarrow> 'a list \<Rightarrow> nat option" where
  "findIndex p [] = None"
| "findIndex p (x # xs) =
     (if p x then Some 0 else map_option Suc (findIndex p xs))"

text \<open>The state updates passed to \<open>setLines\<close>; a line that is not found leaves the
  transcript as it is.\<close>

definition updateDisplayed :: "jsstring \<Rightarrow> content \<Rightarrow> TerminalLine list \<Rightarrow> TerminalLine list" where
  "updateDisplayed lineId c prevLines =
     (case findIndex (\<lambda>l. line_id l = lineId) prevLines of
        None \<Rightarrow> prevLines
      | Some lineIndex \<Rightarrow>
          prevLines[lineIndex := (prevLines ! lineIndex)\<lparr>displayedContent := c\<rparr>])"

definition updateComplete :: "jsstring \<Rightarrow> TerminalLine list \<Rightarrow> TerminalLine list" where
  "updateComplete lineId prevLines =
     (case findIndex (\<lambda>l. line_id l = lineId) prevLines of
        None \<Rightarrow> prevLines
      | Some lineIndex \<Rightarrow>
          prevLines[lineIndex := (prevLines ! lineIndex)\<lparr>isComplete := True\<rparr>])"

fun applyEvent :: "event \<Rightarrow> TerminalLine list \<Rightarrow> TerminalLine list" where
  "applyEvent (SetDisplayed lineId c) ls = updateDisplayed lineId c ls"
| "applyEvent (SetComplete lineId) ls = updateComplete lineId ls"
| "applyEvent Throw ls = ls"

definition applyEvents :: "event list \<Rightarrow> TerminalLine list \<Rightarrow> TerminalLine list" where
  "applyEvents evs ls = foldl (\<lambda>s e. applyEvent e s) ls evs"

text \<open>The \<open>while\<close> loop over the segments. The loop state is \<open>displayedSegments\<close>,
  \<open>currentSegmentIndex\<close> and \<open>currentCharIndex\<close>. Appending to the text of the last
  displayed segment raises a \<open>TypeError\<close> when there is none. When no character is
  typed, \<open>currentCharIndex\<close> is not below the length of the segment's text, so the last
  test of the loop body moves on to the next segment.\<close>

function renderSegments ::
  "jsstring \<Rightarrow> FormattedOutput \<Rightarrow> FormattedOutput \<Rightarrow> nat \<Rightarrow> nat \<Rightarrow> event list" where
  "renderSegments lineId content displayedSegments currentSegmentIndex currentCharIndex =
     (if currentSegmentIndex < length content then
        (let segmentText = seg_text (content ! currentSegmentIndex);
             opened = (if currentCharIndex = 0
                       then displayedSegments @ [(content ! currentSegmentIndex)\<lparr>seg_text := []\<rparr>]
                       else displayedSegments)
         in if currentCharIndex < length segmentText then
              (if opened = [] then [Throw]
               else
                 (let typed = opened[length opened - 1 :=
                        (last opened)\<lparr>seg_text :=
                           seg_text (last opened) @ [segmentText ! currentCharIndex]\<rparr>]
                  in SetDisplayed lineId (Segs typed) #
                     (if currentCharIndex + 1 \<ge> length segmentText
                      then renderSegments lineId content typed (currentSegmentIndex + 1) 0
                      else renderSegments lineId content typed currentSegmentIndex
                             (currentCharIndex + 1))))
            else renderSegments lineId content opened (currentSegmentIndex + 1) 0)
      else [SetComplete lineId])"
  by pat_completeness auto
termination
  by (relation "measures [\<lambda>(l, c, d, si, ci). length c - si,
                          \<lambda>(l, c, d, si, ci). length (seg_text (c ! si)) - ci]") auto

declare renderSegments.simps [simp del]

text \<open>The \<open>for\<close> loop over a plain string.\<close>

function renderString :: "jsstring \<Rightarrow> jsstring \<Rightarrow> jsstring \<Rightarrow> nat \<Rightarrow> event list" where
  "renderString lineId contentStr displayed i =
     (if i < length contentStr then
        SetDisplayed lineId (Str (displayed @ [contentStr ! i])) #
        renderString lineId contentStr (displayed @ [contentStr ! i]) (i + 1)
      else [SetComplete lineId])"
  by pat_completeness auto
termination
  by (relation "measure (\<lambda>(l, c, d, i). length c - i)") auto

declare renderString.simps [simp del]

text \<open>\<open>renderOutputLine\<close>: an array is rendered through its segments, anything else as
  a string; reading \<open>length\<close> of \<open>undefined\<close> raises. The \<open>type\<close> argument is not
  used.\<close>

fun renderOutputLine :: "jsstring \<Rightarrow> content \<Rightarrow> LineType \<Rightarrow> event list" where
  "renderOutputLine lineId (Segs c) ty = renderSegments lineId c [] 0 0"
| "renderOutputLine lineId (Str s) ty = renderString lineId s [] 0"
| "renderOutputLine lineId Undefined ty = [Throw]"

text \<open>The values of \<open>displayedContent\<close> that a run sets, tick by tick.\<close>

fun ticks :: "event list \<Rightarrow> content list" where
  "ticks [] = []"
| "ticks (SetDisplayed l c # evs) = c # ticks evs"
| "ticks (e # evs) = ticks evs"

section \<open>The command registry and dispatcher (lib/commands.ts)\<close>

record CommandOutput =
  content :: content
  error :: bool

subsection \<open>The static portfolio data\<close>

text \<open>\<open>PORTFOLIO_DATA\<close>, field by field. The code units beyond ASCII are written out as
  the source file has them.\<close>

definition PORTFOLIO_email :: jsstring where
  "PORTFOLIO_email = js ''viniciusmanoel@duck.com''"

definition PORTFOLIO_about_description :: jsstring where
  "PORTFOLIO_about_description =
     js ''I'm a PhD student in Computer Science, specializing in Biotechnology \<newline>''
     @ js ''    with expertise in modern technologies. I love creating elegant solutions to complex\<newline>''
     @ js ''    problems and building beautiful, performant applications.''"

definition PORTFOLIO_about_skills :: jsstring where
  "PORTFOLIO_about_skills = js ''Python, C++, Rust, JavaScript, Go, Ruby''"

definition PORTFOLIO_about_location :: jsstring where
  "PORTFOLIO_about_location = js ''Bras'' @ [0x221A, 0x2260] @ js ''lia, Brazil''"

definition PORTFOLIO_social_github :: jsstring where
  "PORTFOLIO_social_github = js ''https://github.com/vncsmnl''"

definition PORTFOLIO_social_linkedin :: jsstring where
  "PORTFOLIO_social_linkedin = js ''https://linkedin.com/in/vncsmnl''"

definition PORTFOLIO_social_twitter :: jsstring where
  "PORTFOLIO_social_twitter = js ''https://twitter.com/vncsmnl''"

definition PORTFOLIO_social_portfolio :: jsstring where
  "PORTFOLIO_social_portfolio = js ''https://vini.thedev.id/''"

definition PORTFOLIO_social_linktree :: jsstring where
  "PORTFOLIO_social_linktree = js ''https://vinicius.is-a.dev/''"

text \<open>Each project is its name, description and link.\<close>

definition PORTFOLIO_projects :: "(jsstring \<times> jsstring \<times> jsstring) list" where
  "PORTFOLIO_projects =
     [(js ''astar_msa_rust'',
       js ''PA-Star is a software that performs a parallel A-Star search to solve the Multiple Sequence Alignment (MSA) problem.'',
       js ''https://github.com/vncsmnl/astar_msa_rust''),
      (js ''pa-star-rv'',
       js ''An interactive 3D visualization tool for analyzing execution logs from the PA-Star (Parallel A-Star) algorithm applied to the Multiple Sequence Alignment (MSA) problem.'',
       js ''https://github.com/vncsmnl/pa-star-rv''),
      (js ''msa_app'',
       js ''A web-based interface for running Multiple Sequence Alignment (MSA) using A-Star and PA-Star algorithms.'',
       js ''https://github.com/vncsmnl/msa_app'')]"

text \<open>Each stack entry is its category and technologies.\<close>

definition PORTFOLIO_stack :: "(jsstring \<times> jsstring) list" where
  "PORTFOLIO_stack =
     [(js ''Frontend'', js ''React, TypeScript, Tailwind CSS''),
      (js ''Backend'', js ''Node.js, Bun, FastAPI, Flask''),
      (js ''Frameworks'', js ''LangChain, CrewAI, OpenAI API, Hugging Face''),
      (js ''Database'', js ''PostgreSQL, SQLite, FAISS''),
      (js ''DevOps'', js ''Docker, GitHub Actions, AWS, Kubernetes''),
      (js ''Tools'', js ''Git, Latex, Ollama, '')]"

definition PORTFOLIO_resume :: jsstring where
  "PORTFOLIO_resume = js ''https://vinicius.is-a.dev/cv/pdf''"

subsection \<open>What the handlers compute\<close>

definition helpOutput :: FormattedOutput where
  "helpOutput = combine
     [createHeader (js ''AVAILABLE COMMANDS''),
      [text_primary (js ''about       '') True,
       text_default (js ''- Learn about me\<newline>'') False,
       text_primary (js ''blog        '') True,
       text_default (js ''- View my blog posts\<newline>'') False,
       text_primary (js ''social      '') True,
       text_default (js ''- Display social network links\<newline>'') False,
       text_primary (js ''projects    '') True,
       text_default (js ''- View my coding projects\<newline>'') False,
       text_primary (js ''stack       '') True,
       text_default (js ''- View my current tech stack\<newline>'') False,
       text_primary (js ''videos      '') True,
       text_default (js ''- View my YouTube videos\<newline>'') False,
       text_primary (js ''podcasts    '') True,
       text_default (js ''- View my Spotify podcast episodes\<newline>'') False,
       text_primary (js ''resume      '') True,
       text_default (js ''- Get my online resume link\<newline>'') False,
       text_primary (js ''history     '') True,
       text_default (js ''- View command history\<newline>'') False,
       text_primary (js ''email       '') True,
       text_default (js ''- See my email address\<newline>'') False,
       text_primary (js ''sudo        '') True,
       text_default (js ''- Execute a command as another user\<newline>'') False,
       text_primary (js ''clear       '') True,
       text_default (js ''- Clear terminal screen\<newline>'') False,
       text_primary (js ''reload      '') True,
       text_default (js ''- Reload page and clear history\<newline>'') False,
       text_primary (js ''help        '') True,
       text_default (js ''- Show this help message\<newline>'') False,
       text_default (js ''\<newline>'') False,
       text_muted (js ''Type any command to execute it.\<newline>'') False]]"

definition aboutOutput :: FormattedOutput where
  "aboutOutput = combine
     [createHeader (js ''ABOUT ME''),
      [text_default (PORTFOLIO_about_description @ js ''\<newline>\<newline>'') False,
       text_primary (js ''Skills: '') True,
       text_accent (PORTFOLIO_about_skills @ js ''\<newline>'') False,
       text_primary (js ''Location: '') True,
       text_default (PORTFOLIO_about_location @ js ''\<newline>'') False]]"

definition emailOutput :: FormattedOutput where
  "emailOutput =
     [text_primary ([0xF8FF, 0xFC, 0xEC, 0xDF] @ js '' Email: '') True,
      text_secondary PORTFOLIO_email False,
      text_default (js ''\<newline>'') False]"

definition socialOutput :: FormattedOutput where
  "socialOutput = combine
     [createHeader (js ''SOCIAL NETWORKS''),
      createLink (js ''GitHub:'') PORTFOLIO_social_github,
      createLink (js ''LinkedIn:'') PORTFOLIO_social_linkedin,
      createLink (js ''Twitter:'') PORTFOLIO_social_twitter,
      createLink (js ''Portfolio:'') PORTFOLIO_social_portfolio,
      createLink (js ''Linktree:'') PORTFOLIO_social_linktree]"

text \<open>\<open>flatMap\<close> with the index of each project.\<close>

definition projectItems :: FormattedOutput where
  "projectItems =
     concat (map (\<lambda>(idx, (name, description, link)).
                    createListItem (idx + 1) name (Some description) (Some link))
                 (zip [0..<length PORTFOLIO_projects] PORTFOLIO_projects))"

definition projectsOutput :: FormattedOutput where
  "projectsOutput = combine [createHeader (js ''MY PROJECTS''), projectItems]"

definition stackItems :: FormattedOutput where
  "stackItems = concat (map (\<lambda>(category, tech). createBullet category tech) PORTFOLIO_stack)"

definition stackOutput :: FormattedOutput where
  "stackOutput = combine [createHeader (js ''TECH STACK''), stackItems]"

definition blogOutput :: FormattedOutput where
  "blogOutput = combine
     [createHeader (js ''MY BLOG''),
      [text_default (js ''Check my articles about web\<newline>'') False,
       text_default (js ''development, best practices, and tech insights.\<newline>\<newline>'') False],
      createLink (js ''Blog:'') (js ''https://vini.thedev.id/blog/'')]"

definition videosOutput :: FormattedOutput where
  "videosOutput = combine
     [createHeader (js ''YOUTUBE VIDEOS''),
      [text_default (js ''Subscribe to my channel for tutorials and\<newline>'') False,
       text_default (js ''tech content.\<newline>\<newline>'') False],
      createLink (js ''YouTube:'') (js ''https://youtube.com/@vncsmnl'')]"

definition podcastsOutput :: FormattedOutput where
  "podcastsOutput = combine
     [createHeader (js ''SPOTIFY PODCASTS''),
      [text_default (js ''Coming soon! Listen to my podcast episodes on Spotify.\<newline>\<newline>'') False],
      createLink (js ''Spotify:'') (js ''https://spotify.com/vncsmnl'')]"

definition resumeOutput :: FormattedOutput where
  "resumeOutput = combine
     [createHeader (js ''RESUME''),
      createLink (js ''Download:'') PORTFOLIO_resume,
      createLink (js ''View online:'') (js ''https://vinicius.is-a.dev/cv/'')]"

definition historyOutput :: FormattedOutput where
  "historyOutput = combine
     [createHeader (js ''COMMAND HISTORY''),
      [text_default (js ''Use arrow keys '') False,
       text_primary (js ''('' @ [0x201A, 0xDC, 0xEB] @ js '' '' @ [0x201A, 0xDC, 0xEC] @ js '')'') True,
       text_default (js '' to navigate through command history.\<newline>'') False]]"

subsection \<open>The runtime, handlers and the registry\<close>

text \<open>What the JavaScript engine supplies. \<open>toLowerCase rt\<close> is
  \<open>String.prototype.toLowerCase\<close>, with the case mappings of all of Unicode. \<open>randomFloor rt k n\<close> is the value of
  \<open>Math.floor(Math.random() * n)\<close> at the \<open>k\<close>-th call of \<open>Math.random\<close> of the session;
  the number of calls made so far is threaded through the handlers.
  \<open>notCallableMessage\<close> is the message of the \<open>TypeError\<close> raised by calling a value that
  is not a function.\<close>

record runtime =
  toLowerCase :: "jsstring \<Rightarrow> jsstring"
  randomFloor :: "nat \<Rightarrow> nat \<Rightarrow> nat"
  notCallableMessage :: jsstring

text \<open>A thrown value is an \<open>Error\<close> object with its message, or anything else.\<close>

datatype thrown = ErrorObject jsstring | OtherValue

text \<open>What awaiting a property of the registry called with the arguments yields: a
  \<open>CommandOutput\<close>, or the argument array itself (from \<open>Object\<close>, see below).\<close>

datatype result = Output CommandOutput | ArgsArray "jsstring list"

type_synonym handler = "runtime \<Rightarrow> nat \<Rightarrow> jsstring list \<Rightarrow> (thrown + result) \<times> nat"

datatype property = Callable handler | NotCallable

type_synonym registry = "jsstring \<Rightarrow> property option"

definition staticHandler :: "FormattedOutput \<Rightarrow> handler" where
  "staticHandler output rt k args = (Inr (Output \<lparr>content = Segs output, error = False\<rparr>), k)"

definition cmd_help :: handler where "cmd_help = staticHandler helpOutput"
definition cmd_about :: handler where "cmd_about = staticHandler aboutOutput"
definition cmd_email :: handler where "cmd_email = staticHandler emailOutput"
definition cmd_social :: handler where "cmd_social = staticHandler socialOutput"
definition cmd_projects :: handler where "cmd_projects = staticHandler projectsOutput"
definition cmd_stack :: handler where "cmd_stack = staticHandler stackOutput"
definition cmd_blog :: handler where "cmd_blog = staticHandler blogOutput"
definition cmd_videos :: handler where "cmd_videos = staticHandler videosOutput"
definition cmd_podcasts :: handler where "cmd_podcasts = staticHandler podcastsOutput"
definition cmd_resume :: handler where "cmd_resume = staticHandler resumeOutput"
definition cmd_history :: handler where "cmd_history = staticHandler historyOutput"

definition cmd_clear :: handler where
  "cmd_clear rt k args = (Inr (Output \<lparr>content = Str (js ''CLEAR''), error = False\<rparr>), k)"

definition cmd_reload :: handler where
  "cmd_reload rt k args = (Inr (Output \<lparr>content = Str (js ''RELOAD''), error = False\<rparr>), k)"

subsection \<open>The \<open>sudo\<close> handler\<close>

definition packages :: "jsstring list" where
  "packages = map js
     [''react'', ''typescript'', ''vite'', ''tailwindcss'', ''nodejs'', ''npm'', ''webpack'',
      ''babel'', ''eslint'', ''prettier'', ''jest'', ''cypress'', ''docker'', ''kubernetes'',
      ''postgresql'', ''mongodb'', ''redis'', ''nginx'', ''apache'', ''git'', ''github-cli'',
      ''python'', ''pip'', ''django'', ''flask'', ''fastapi'', ''express'', ''nestjs'',
      ''nextjs'', ''gatsby'', ''nuxt'', ''vue'', ''angular'', ''svelte'', ''solid'',
      ''prisma'', ''graphql'', ''apollo'', ''trpc'', ''zod'', ''yup'', ''formik'',
      ''axios'', ''fetch'', ''websocket'', ''socket.io'', ''webrtc'', ''pwa'',
      ''electron'', ''tauri'', ''capacitor'', ''react-native'', ''expo'', ''flutter'']"

text \<open>\<open>packages[i]\<close> inside a string concatenation: an index out of range reads
  \<open>undefined\<close>, which concatenates as the word.\<close>

definition packageAt :: "nat \<Rightarrow> jsstring" where
  "packageAt i = (if i < length packages then packages ! i else js ''undefined'')"

text \<open>A version string takes three draws.\<close>

definition versionString :: "runtime \<Rightarrow> nat \<Rightarrow> jsstring" where
  "versionString rt k =
     numberToString (randomFloor rt k 5 + 1) @ js ''.'' @
     numberToString (randomFloor rt (k + 1) 20) @ js ''.'' @
     numberToString (randomFloor rt (k + 2) 10)"

text \<open>The \<open>for\<close> loop of \<open>generateUpdateLines\<close>: eight draws per package.\<close>

function updateLoop ::
  "runtime \<Rightarrow> nat \<Rightarrow> nat \<Rightarrow> nat \<Rightarrow> FormattedOutput \<Rightarrow> FormattedOutput \<times> nat" where
  "updateLoop rt k i numPackages ls =
     (if i < numPackages then
        (let pkg = packageAt (randomFloor rt k (length packages));
             oldVersion = versionString rt (k + 1);
             newVersion = versionString rt (k + 4);
             size = randomFloor rt (k + 7) 500 + 50
         in updateLoop rt (k + 8) (i + 1) numPackages
              (ls @ [text_default (js ''Get:'' @ numberToString (i + 1) @ js '' '') False,
                     text_accent (js ''stable/main '') True,
                     text_default (pkg @ js '' '') False,
                     text_muted (oldVersion @ js '' -> '') False,
                     text_primary newVersion True,
                     text_default (js '' ['' @ numberToString size @ js '' kB]\<newline>'') False]))
      else (ls, k))"
  by pat_completeness auto
termination
  by (relation "measure (\<lambda>(rt, k, i, numPackages, ls). numPackages - i)") auto

declare updateLoop.simps [simp del]

text \<open>\<open>totalSize\<close> is below 6000 and \<open>speed\<close> is at least 500, so the floor of their
  quotient is the integer quotient.\<close>

definition generateUpdateLines :: "runtime \<Rightarrow> nat \<Rightarrow> FormattedOutput \<times> nat" where
  "generateUpdateLines rt k =
     (let numPackages = randomFloor rt k 8 + 5;
          (ls, k1) = updateLoop rt (k + 1) 0 numPackages [];
          totalSize = randomFloor rt k1 5000 + 1000;
          speed = randomFloor rt (k1 + 1) 3000 + 500;
          time = totalSize div speed
      in (ls @
          [text_default (js ''\<newline>Fetched '') False,
           text_primary (numberToString totalSize @ js '' kB'') True,
           text_default (js '' in '') False,
           text_accent (numberToString time @ js ''s'') True,
           text_default (js '' ('') False,
           text_secondary (numberToString speed @ js '' kB/s'') False,
           text_default (js '')\<newline>\<newline>'') False,
           text_default (js ''Reading package lists... '') False,
           text_accent (js ''Done\<newline>'') True,
           text_default (js ''Building dependency tree... '') False,
           text_accent (js ''Done\<newline>'') True,
           text_default (js ''Reading state information... '') False,
           text_accent (js ''Done\<newline>'') True,
           text_accent (js ''\<newline>'' @ [0x201A, 0xFA, 0xEC] @ js '' All packages are up to date!\<newline>'') True],
          k1 + 2))"

definition isUpdateCommand :: "runtime \<Rightarrow> jsstring list \<Rightarrow> bool" where
  "isUpdateCommand rt args =
     (let fullCommand = toLowerCase rt (join (js '' '') args)
      in includes_str fullCommand (js ''update'') \<or>
         includes_str fullCommand (js ''upgrade'') \<or>
         includes_str fullCommand (js ''install'') \<or>
         length args = 0)"

text \<open>\<open>args[0]\<close> inside a template literal.\<close>

definition firstArg :: "jsstring list \<Rightarrow> jsstring" where
  "firstArg args = (case args of [] \<Rightarrow> js ''undefined'' | a # _ \<Rightarrow> a)"

definition sudoNotFoundOutput :: "jsstring list \<Rightarrow> FormattedOutput" where
  "sudoNotFoundOutput args =
     [text_primary (js ''[sudo] '') True,
      text_default (js ''password for user: '') False,
      text_muted (js ''***************\<newline>\<newline>'') False,
      text_error (js ''sudo: '' @ firstArg args @ js '': command not found\<newline>'') False]"

definition cmd_sudo :: handler where
  "cmd_sudo rt k args =
     (if isUpdateCommand rt args then
        (let (ls, k') = generateUpdateLines rt k
         in (Inr (Output \<lparr>content = Segs (combine
               [[text_primary (js ''[sudo] '') True, text_default (js ''password for user: '') False],
                [text_muted (js ''***************\<newline>\<newline>'') False],
                [text_accent (js ''Reading package lists... Done\<newline>'') True],
                [text_default (js ''Building dependency tree\<newline>'') False],
                [text_default (js ''Reading state information... Done\<newline>\<newline>'') False],
                ls]), error = False\<rparr>), k'))
      else (Inr (Output \<lparr>content = Segs (sudoNotFoundOutput args), error = False\<rparr>), k))"

subsection \<open>The registry\<close>

text \<open>\<open>commands\<close> is an object literal, so \<open>command in commands\<close> and
  \<open>commands[command]\<close> also see the properties it inherits from \<open>Object.prototype\<close>.
  The dispatcher looks up only names that \<open>toLowerCase\<close> returned, which have no capital
  ASCII letter; of the inherited names, only \<open>constructor\<close> and \<open>__proto__\<close> are such. \<open>commands.constructor\<close> is \<open>Object\<close>, which
  returns the array it is given, and \<open>commands.__proto__\<close> is an object, not a function.\<close>

definition objectConstructor :: handler where
  "objectConstructor rt k args = (Inr (ArgsArray args), k)"

definition commands :: registry where
  "commands name =
     (if name = js ''help'' then Some (Callable cmd_help)
      else if name = js ''about'' then Some (Callable cmd_about)
      else if name = js ''email'' then Some (Callable cmd_email)
      else if name = js ''social'' then Some (Callable cmd_social)
      else if name = js ''projects'' then Some (Callable cmd_projects)
      else if name = js ''stack'' then Some (Callable cmd_stack)
      else if name = js ''blog'' then Some (Callable cmd_blog)
      else if name = js ''videos'' then Some (Callable cmd_videos)
      else if name = js ''podcasts'' then Some (Callable cmd_podcasts)
      else if name = js ''resume'' then Some (Callable cmd_resume)
      else if name = js ''history'' then Some (Callable cmd_history)
      else if name = js ''sudo'' then Some (Callable cmd_sudo)
      else if name = js ''clear'' then Some (Callable cmd_clear)
      else if name = js ''reload'' then Some (Callable cmd_reload)
      else if name = js ''constructor'' then Some (Callable objectConstructor)
      else if name = js ''__proto__'' then Some NotCallable
      else None)"

subsection \<open>\<open>getCommandOutput\<close>\<close>

text \<open>The first two statements of \<open>getCommandOutput\<close>: the command token and the
  argument tokens. \<open>split\<close> never returns an empty array.\<close>

definition parseInput :: "runtime \<Rightarrow> jsstring \<Rightarrow> jsstring \<times> jsstring list" where
  "parseInput rt input =
     (let trimmed = toLowerCase rt (trim input)
      in case splitOn 0x20 trimmed of
           [] \<Rightarrow> ([], [])
         | command # args \<Rightarrow> (command, args))"

definition errorOutput :: "thrown \<Rightarrow> CommandOutput" where
  "errorOutput e =
     \<lparr>content = Segs
        [text_error (js ''Error executing command: '') False,
         text_error (case e of ErrorObject message \<Rightarrow> message
                             | OtherValue \<Rightarrow> js ''Unknown error'') False,
         text_default (js ''\<newline>'') False],
      error = True\<rparr>"

definition notFoundOutput :: "jsstring \<Rightarrow> CommandOutput" where
  "notFoundOutput command =
     \<lparr>content = Segs
        [text_error (js ''Command not found: '' @ command @ js ''. '') False,
         text_default (js ''Type '') False,
         text_primary (js ''help'') True,
         text_default (js '' for available commands.\<newline>'') False],
      error = True\<rparr>"

definition callProperty :: "property \<Rightarrow> handler" where
  "callProperty p rt k args =
     (case p of
        Callable h \<Rightarrow> h rt k args
      | NotCallable \<Rightarrow> (Inl (ErrorObject (notCallableMessage rt)), k))"

text \<open>The dispatcher over any registry. The result is \<open>Inl\<close> when the call throws and
  \<open>Inr\<close> when it returns.\<close>

definition dispatch :: "registry \<Rightarrow> runtime \<Rightarrow> nat \<Rightarrow> jsstring \<Rightarrow> (thrown + result) \<times> nat" where
  "dispatch reg rt k input =
     (case parseInput rt input of
        (command, args) \<Rightarrow>
          if command = js ''clear'' then
            (Inr (Output \<lparr>content = Str (js ''CLEAR''), error = False\<rparr>), k)
          else if command = js ''reload'' then
            (Inr (Output \<lparr>content = Str (js ''RELOAD''), error = False\<rparr>), k)
          else
            (case reg command of
               Some p \<Rightarrow>
                 (case callProperty p rt k args of
                    (Inl e, k') \<Rightarrow> (Inr (Output (errorOutput e)), k')
                  | (Inr r, k') \<Rightarrow> (Inr r, k'))
             | None \<Rightarrow> (Inr (Output (notFoundOutput command)), k)))"

definition getCommandOutput :: "runtime \<Rightarrow> nat \<Rightarrow> jsstring \<Rightarrow> (thrown + result) \<times> nat" where
  "getCommandOutput = dispatch commands"

section \<open>The string variant of the components\<close>

text \<open>The repository holds a second set of the components, in which the content of a
  command result is a plain string with colour tags and line breaks: a second
  \<open>lib/commands.ts\<close>, and a second \<open>Terminal\<close> component (kept with \<open>pages/Home.tsx\<close>) whose
  \<open>renderOutputLine\<close> splits the string at its line breaks. Their definitions carry the
  suffix \<open>_str\<close>.\<close>

subsection \<open>The static portfolio data and the texts of the handlers\<close>

definition PORTFOLIO_str_email :: jsstring where
  "PORTFOLIO_str_email =
     js ''viniciusmanoel@duck.com''"

definition PORTFOLIO_str_about :: jsstring where
  "PORTFOLIO_str_about =
     js ''\<newline>'' @
     js ''[CYAN]'' @ [0x2554] @ replicate 60 0x2550 @ [0x2557] @ js ''[/CYAN]\<newline>'' @
     js ''[CYAN]'' @ [0x2551] @
     js ''                    ABOUT ME                                '' @ [0x2551] @
     js ''[/CYAN]\<newline>'' @
     js ''[CYAN]'' @ [0x255A] @ replicate 60 0x2550 @ [0x255D] @ js ''[/CYAN]\<newline>'' @
     js ''\<newline>'' @
     js ''[WHITE]I'' @ [0x0027] @
     js ''m a passionate full-stack developer with expertise in modern\<newline>'' @
     js ''web technologies. I love creating elegant solutions to complex\<newline>'' @
     js ''problems and building beautiful, performant applications.[/WHITE]\<newline>'' @
     js ''\<newline>'' @
     js ''[CYAN]Skills:[/CYAN] [WHITE]React, TypeScript, Node.js, Python, DevOps[/WHITE]\<newline>'' @
     js ''[CYAN]Location:[/CYAN] [WHITE]S'' @ [0x00E3] @ js ''o Paulo, Brazil[/WHITE]\<newline>'' @
     js ''  ''"

definition PORTFOLIO_str_social_github :: jsstring where
  "PORTFOLIO_str_social_github =
     js ''https://github.com/vncsmnl''"

definition PORTFOLIO_str_social_linkedin :: jsstring where
  "PORTFOLIO_str_social_linkedin =
     js ''https://linkedin.com/in/vncsmnl''"

definition PORTFOLIO_str_social_twitter :: jsstring where
  "PORTFOLIO_str_social_twitter =
     js ''https://twitter.com/vncsmnl''"

definition PORTFOLIO_str_social_portfolio :: jsstring where
  "PORTFOLIO_str_social_portfolio =
     js ''https://vini.thedev.id/''"

definition PORTFOLIO_str_projects :: "(jsstring \<times> jsstring \<times> jsstring) list" where
  "PORTFOLIO_str_projects =
     [(js ''Project Alpha'',
       js ''A real-time collaboration platform built with React and WebSockets'',
       js ''https://github.com/yourusername/project-alpha''),
      (js ''Project Beta'',
       js ''Machine learning model deployment dashboard using FastAPI'',
       js ''https://github.com/yourusername/project-beta''),
      (js ''Project Gamma'',
       js ''Mobile app for task management with offline-first architecture'',
       js ''https://github.com/yourusername/project-gamma'')]"

definition PORTFOLIO_str_stack :: "(jsstring \<times> jsstring) list" where
  "PORTFOLIO_str_stack =
     [(js ''Frontend'', js ''React 19, TypeScript, Tailwind CSS, Framer Motion''),
      (js ''Backend'', js ''Node.js, Express, FastAPI, Python''),
      (js ''Database'', js ''PostgreSQL, MongoDB, Redis''),
      (js ''DevOps'', js ''Docker, GitHub Actions, AWS, Vercel''),
      (js ''Tools'', js ''Git, VS Code, Figma, Postman'')]"

definition PORTFOLIO_str_resume :: jsstring where
  "PORTFOLIO_str_resume =
     js ''https://vinicius.is-a.dev/cv/''"

definition helpText_str :: jsstring where
  "helpText_str =
     js ''\<newline>'' @
     js ''[CYAN]'' @ [0x2554] @ replicate 60 0x2550 @ [0x2557] @ js ''[/CYAN]\<newline>'' @
     js ''[CYAN]'' @ [0x2551] @
     js ''                    AVAILABLE COMMANDS                      '' @ [0x2551] @
     js ''[/CYAN]\<newline>'' @
     js ''[CYAN]'' @ [0x255A] @ replicate 60 0x2550 @ [0x255D] @ js ''[/CYAN]\<newline>'' @
     js ''\<newline>'' @
     js ''[CYAN]about[/CYAN]        [WHITE]- Learn about me[/WHITE]\<newline>'' @
     js ''[CYAN]blog[/CYAN]         [WHITE]- View my blog posts[/WHITE]\<newline>'' @
     js ''[CYAN]social[/CYAN]       [WHITE]- Display social network links[/WHITE]\<newline>'' @
     js ''[CYAN]projects[/CYAN]     [WHITE]- View my coding projects[/WHITE]\<newline>'' @
     js ''[CYAN]stack[/CYAN]        [WHITE]- View my current tech stack[/WHITE]\<newline>'' @
     js ''[CYAN]videos[/CYAN]       [WHITE]- View my YouTube videos[/WHITE]\<newline>'' @
     js ''[CYAN]podcasts[/CYAN]     [WHITE]- View my Spotify podcast episodes[/WHITE]\<newline>'' @
     js ''[CYAN]resume[/CYAN]       [WHITE]- Get my online resume link[/WHITE]\<newline>'' @
     js ''[CYAN]history[/CYAN]      [WHITE]- View command history[/WHITE]\<newline>'' @
     js ''[CYAN]email[/CYAN]        [WHITE]- See my email address[/WHITE]\<newline>'' @
     js ''[CYAN]clear[/CYAN]        [WHITE]- Clear terminal screen[/WHITE]\<newline>'' @
     js ''[CYAN]reload[/CYAN]       [WHITE]- Reload page and clear history[/WHITE]\<newline>'' @
     js ''[CYAN]help[/CYAN]         [WHITE]- Show this help message[/WHITE]\<newline>'' @
     js ''\<newline>'' @
     js ''[WHITE]Type any command to execute it.[/WHITE]\<newline>'' @
     js ''    ''"

definition emailText_str :: jsstring where
  "emailText_str =
     js ''[CYAN]'' @ [0xD83D, 0xDCE7] @ js '' Email:[/CYAN] [MAGENTA]'' @ PORTFOLIO_str_email @
     js ''[/MAGENTA]''"

definition socialText_str :: jsstring where
  "socialText_str =
     js ''\<newline>'' @
     js ''[CYAN]'' @ [0x2554] @ replicate 60 0x2550 @ [0x2557] @ js ''[/CYAN]\<newline>'' @
     js ''[CYAN]'' @ [0x2551] @
     js ''                    SOCIAL NETWORKS                         '' @ [0x2551] @
     js ''[/CYAN]\<newline>'' @
     js ''[CYAN]'' @ [0x255A] @ replicate 60 0x2550 @ [0x255D] @ js ''[/CYAN]\<newline>'' @
     js ''\<newline>'' @
     js ''[CYAN]GitHub:[/CYAN]      [MAGENTA]'' @ PORTFOLIO_str_social_github @
     js ''[/MAGENTA]\<newline>'' @
     js ''[CYAN]LinkedIn:[/CYAN]    [MAGENTA]'' @ PORTFOLIO_str_social_linkedin @
     js ''[/MAGENTA]\<newline>'' @
     js ''[CYAN]Twitter:[/CYAN]     [MAGENTA]'' @ PORTFOLIO_str_social_twitter @
     js ''[/MAGENTA]\<newline>'' @
     js ''[CYAN]Portfolio:[/CYAN]   [MAGENTA]'' @ PORTFOLIO_str_social_portfolio @
     js ''[/MAGENTA]\<newline>'' @
     js ''    ''"

definition projectText_str :: jsstring where
  "projectText_str =
     js ''\<newline>'' @
     js ''[CYAN]'' @ [0x2554] @ replicate 60 0x2550 @ [0x2557] @ js ''[/CYAN]\<newline>'' @
     js ''[CYAN]'' @ [0x2551] @
     js ''                    MY PROJECTS                             '' @ [0x2551] @
     js ''[/CYAN]\<newline>'' @
     js ''[CYAN]'' @ [0x255A] @ replicate 60 0x2550 @ [0x255D] @ js ''[/CYAN]\<newline>'' @
     concat (map (\<lambda>(idx, (name, description, link)).
                    js ''\<newline>'' @
                    js ''[CYAN]['' @ numberToString (idx + 1) @ js ''] '' @ name @ js ''[/CYAN]\<newline>'' @
                    js ''[WHITE]    '' @ description @ js ''[/WHITE]\<newline>'' @
                    js ''[MAGENTA]    Link: '' @ link @ js ''[/MAGENTA]\<newline>'')
                 (zip [0..<length PORTFOLIO_str_projects] PORTFOLIO_str_projects))"

definition stackText_str :: jsstring where
  "stackText_str =
     js ''\<newline>'' @
     js ''[CYAN]'' @ [0x2554] @ replicate 60 0x2550 @ [0x2557] @ js ''[/CYAN]\<newline>'' @
     js ''[CYAN]'' @ [0x2551] @
     js ''                    TECH STACK                              '' @ [0x2551] @
     js ''[/CYAN]\<newline>'' @
     js ''[CYAN]'' @ [0x255A] @ replicate 60 0x2550 @ [0x255D] @ js ''[/CYAN]\<newline>'' @
     concat (map (\<lambda>(category, tech).
                    js ''\<newline>'' @
                    js ''[CYAN]'' @ [0x25B8] @ js '' '' @ category @ js '':[/CYAN] [WHITE]'' @ tech @
                    js ''[/WHITE]'')
                 PORTFOLIO_str_stack)"

definition blogText_str :: jsstring where
  "blogText_str =
     js ''\<newline>'' @
     js ''[CYAN]'' @ [0x2554] @ replicate 60 0x2550 @ [0x2557] @ js ''[/CYAN]\<newline>'' @
     js ''[CYAN]'' @ [0x2551] @
     js ''                    MY BLOG                                 '' @ [0x2551] @
     js ''[/CYAN]\<newline>'' @
     js ''[CYAN]'' @ [0x255A] @ replicate 60 0x2550 @ [0x255D] @ js ''[/CYAN]\<newline>'' @
     js ''\<newline>'' @
     js ''[WHITE]Coming soon! Check back later for articles about web\<newline>'' @
     js ''development, best practices, and tech insights.[/WHITE]\<newline>'' @
     js ''\<newline>'' @
     js ''[CYAN]Blog:[/CYAN] [MAGENTA]https://vini.thedev.id/blog/[/MAGENTA]\<newline>'' @
     js ''      ''"

definition videosText_str :: jsstring where
  "videosText_str =
     js ''\<newline>'' @
     js ''[CYAN]'' @ [0x2554] @ replicate 60 0x2550 @ [0x2557] @ js ''[/CYAN]\<newline>'' @
     js ''[CYAN]'' @ [0x2551] @
     js ''                    YOUTUBE VIDEOS                          '' @ [0x2551] @
     js ''[/CYAN]\<newline>'' @
     js ''[CYAN]'' @ [0x255A] @ replicate 60 0x2550 @ [0x255D] @ js ''[/CYAN]\<newline>'' @
     js ''\<newline>'' @
     js ''[WHITE]Coming soon! Subscribe to my channel for tutorials and\<newline>'' @
     js ''tech content.[/WHITE]\<newline>'' @
     js ''\<newline>'' @
     js ''[CYAN]YouTube:[/CYAN] [MAGENTA]https://youtube.com/@vncsmnl[/MAGENTA]\<newline>'' @
     js ''      ''"

definition podcastsText_str :: jsstring where
  "podcastsText_str =
     js ''\<newline>'' @
     js ''[CYAN]'' @ [0x2554] @ replicate 60 0x2550 @ [0x2557] @ js ''[/CYAN]\<newline>'' @
     js ''[CYAN]'' @ [0x2551] @
     js ''                    SPOTIFY PODCASTS                        '' @ [0x2551] @
     js ''[/CYAN]\<newline>'' @
     js ''[CYAN]'' @ [0x255A] @ replicate 60 0x2550 @ [0x255D] @ js ''[/CYAN]\<newline>'' @
     js ''\<newline>'' @
     js ''[WHITE]Coming soon! Listen to my podcast episodes on Spotify.[/WHITE]\<newline>'' @
     js ''\<newline>'' @
     js ''[CYAN]Spotify:[/CYAN] [MAGENTA]https://spotify.com/vncsmnl[/MAGENTA]\<newline>'' @
     js ''      ''"

definition resumeText_str :: jsstring where
  "resumeText_str =
     js ''\<newline>'' @
     js ''[CYAN]'' @ [0x2554] @ replicate 60 0x2550 @ [0x2557] @ js ''[/CYAN]\<newline>'' @
     js ''[CYAN]'' @ [0x2551] @
     js ''                    RESUME                                  '' @ [0x2551] @
     js ''[/CYAN]\<newline>'' @
     js ''[CYAN]'' @ [0x255A] @ replicate 60 0x2550 @ [0x255D] @ js ''[/CYAN]\<newline>'' @
     js ''\<newline>'' @
     js ''[WHITE]Download my resume:[/WHITE] [MAGENTA]'' @ PORTFOLIO_str_resume @
     js ''[/MAGENTA]\<newline>'' @
     js ''\<newline>'' @
     js ''[WHITE]Or view it online at:[/WHITE] [MAGENTA]https://vini.thedev.id[/MAGENTA]\<newline>'' @
     js ''      ''"

definition historyText_str :: jsstring where
  "historyText_str =
     js ''\<newline>'' @
     js ''[CYAN]'' @ [0x2554] @ replicate 60 0x2550 @ [0x2557] @ js ''[/CYAN]\<newline>'' @
     js ''[CYAN]'' @ [0x2551] @
     js ''                    COMMAND HISTORY                         '' @ [0x2551] @
     js ''[/CYAN]\<newline>'' @
     js ''[CYAN]'' @ [0x255A] @ replicate 60 0x2550 @ [0x255D] @ js ''[/CYAN]\<newline>'' @
     js ''\<newline>'' @
     js ''[WHITE]Use arrow keys ('' @ [0x2191] @ js '' '' @ [0x2193] @
     js '') to navigate through command history.[/WHITE]\<newline>'' @
     js ''      ''"

definition errorOutput_str :: "thrown \<Rightarrow> CommandOutput" where
  "errorOutput_str e =
     \<lparr>content = Str
        (js ''[ERROR]Error executing command: '' @
         (case e of ErrorObject message \<Rightarrow> message | OtherValue \<Rightarrow> js ''Unknown error'') @
         js ''[/ERROR]''),
      error = True\<rparr>"

definition notFoundOutput_str :: "jsstring \<Rightarrow> CommandOutput" where
  "notFoundOutput_str command =
     \<lparr>content = Str
        (js ''[ERROR]Command not found: '' @ command @ js ''. Type '' @ [0x0022] @ js ''help'' @
         [0x0022] @ js '' for available commands.[/ERROR]''),
      error = True\<rparr>"

subsection \<open>The registry and \<open>getCommandOutput\<close>\<close>

text \<open>No handler of this variant draws random numbers; the count of draws is passed
  through unchanged, only to share the type of the handlers.\<close>

definition stringHandler :: "jsstring \<Rightarrow> handler" where
  "stringHandler s rt k args = (Inr (Output \<lparr>content = Str s, error = False\<rparr>), k)"

definition commands_str :: registry where
  "commands_str name =
     (if name = js ''help'' then Some (Callable (stringHandler helpText_str))
      else if name = js ''about'' then Some (Callable (stringHandler PORTFOLIO_str_about))
      else if name = js ''email'' then Some (Callable (stringHandler emailText_str))
      else if name = js ''social'' then Some (Callable (stringHandler socialText_str))
      else if name = js ''projects'' then Some (Callable (stringHandler projectText_str))
      else if name = js ''stack'' then Some (Callable (stringHandler stackText_str))
      else if name = js ''blog'' then Some (Callable (stringHandler blogText_str))
      else if name = js ''videos'' then Some (Callable (stringHandler videosText_str))
      else if name = js ''podcasts'' then Some (Callable (stringHandler podcastsText_str))
      else if name = js ''resume'' then Some (Callable (stringHandler resumeText_str))
      else if name = js ''history'' then Some (Callable (stringHandler historyText_str))
      else if name = js ''clear'' then Some (Callable cmd_clear)
      else if name = js ''reload'' then Some (Callable cmd_reload)
      else if name = js ''constructor'' then Some (Callable objectConstructor)
      else if name = js ''__proto__'' then Some NotCallable
      else None)"

definition getCommandOutput_str :: "runtime \<Rightarrow> nat \<Rightarrow> jsstring \<Rightarrow> (thrown + result) \<times> nat" where
  "getCommandOutput_str rt k input =
     (case parseInput rt input of
        (command, args) \<Rightarrow>
          if command = js ''clear'' then
            (Inr (Output \<lparr>content = Str (js ''CLEAR''), error = False\<rparr>), k)
          else if command = js ''reload'' then
            (Inr (Output \<lparr>content = Str (js ''RELOAD''), error = False\<rparr>), k)
          else
            (case commands_str command of
               Some p \<Rightarrow>
                 (case callProperty p rt k args of
                    (Inl e, k') \<Rightarrow> (Inr (Output (errorOutput_str e)), k')
                  | (Inr r, k') \<Rightarrow> (Inr r, k'))
             | None \<Rightarrow> (Inr (Output (notFoundOutput_str command)), k)))"

subsection \<open>\<open>renderOutputLine\<close> with line splitting\<close>

text \<open>This \<open>renderOutputLine\<close> works on \<open>lines_copy\<close>, a copy of the component's \<open>lines\<close>, and
  passes whole transcripts to \<open>setLines\<close>. Its run is the sequence of these transcripts;
  \<open>Raise\<close> ends a run that raises a \<open>TypeError\<close>.\<close>

datatype update = SetLines "TerminalLine list" | Raise

text \<open>The inner \<open>for\<close> loop: one character per step into the line \<open>targetLineId\<close>, when
  \<open>lines_copy\<close> has it. The result is the final \<open>lines_copy\<close> and the transcripts set.\<close>

function typeChars_str ::
  "jsstring \<Rightarrow> jsstring \<Rightarrow> TerminalLine list \<Rightarrow> jsstring \<Rightarrow> nat
     \<Rightarrow> TerminalLine list \<times> update list" where
  "typeChars_str targetLineId currentLine lines_copy lineDisplayedContent i =
     (if i < length currentLine then
        (case findIndex (\<lambda>l. line_id l = targetLineId) lines_copy of
           None \<Rightarrow>
             typeChars_str targetLineId currentLine lines_copy
               (lineDisplayedContent @ [currentLine ! i]) (i + 1)
         | Some updatedLineIndex \<Rightarrow>
             (case typeChars_str targetLineId currentLine
                     (lines_copy[updatedLineIndex := (lines_copy ! updatedLineIndex)
                        \<lparr>displayedContent := Str (lineDisplayedContent @ [currentLine ! i])\<rparr>])
                     (lineDisplayedContent @ [currentLine ! i]) (i + 1) of
                (final, sets) \<Rightarrow>
                  (final,
                   SetLines (lines_copy[updatedLineIndex := (lines_copy ! updatedLineIndex)
                        \<lparr>displayedContent := Str (lineDisplayedContent @ [currentLine ! i])\<rparr>])
                   # sets)))
      else (lines_copy, []))"
  by pat_completeness auto
termination
  by (relation "measure (\<lambda>(t, c, ls, d, i). length c - i)") auto

declare typeChars_str.simps [simp del]

text \<open>Marking the line complete, when \<open>lines_copy\<close> has it.\<close>

definition markComplete_str :: "jsstring \<Rightarrow> TerminalLine list \<Rightarrow> TerminalLine list \<times> update list" where
  "markComplete_str targetLineId lines_copy =
     (case findIndex (\<lambda>l. line_id l = targetLineId) lines_copy of
        None \<Rightarrow> (lines_copy, [])
      | Some completedLineIndex \<Rightarrow>
          (lines_copy[completedLineIndex := (lines_copy ! completedLineIndex)\<lparr>isComplete := True\<rparr>],
           [SetLines (lines_copy[completedLineIndex :=
                        (lines_copy ! completedLineIndex)\<lparr>isComplete := True\<rparr>])]))"

text \<open>The outer \<open>for\<close> loop over the pieces of the content: every piece after the first
  gets a new line, pushed to \<open>lines_copy\<close> with the id of the output line, a dash and the
  number of the piece, and the type passed in.\<close>

function renderLines_str ::
  "jsstring \<Rightarrow> LineType \<Rightarrow> jsstring list \<Rightarrow> nat \<Rightarrow> TerminalLine list \<Rightarrow> update list" where
  "renderLines_str lineId ty contentLines lineNum lines_copy =
     (if lineNum < length contentLines then
        (let currentLine = contentLines ! lineNum;
             targetLineId = (if lineNum = 0 then lineId
                             else lineId @ js ''-'' @ numberToString lineNum);
             pushed = (if lineNum > 0
                       then lines_copy @
                              [\<lparr>line_id = targetLineId, line_type = ty,
                                line_content = Str currentLine, displayedContent = Str [],
                                isComplete = False\<rparr>]
                       else lines_copy)
         in (if lineNum > 0 then [SetLines pushed] else []) @
            (case typeChars_str targetLineId currentLine pushed [] 0 of
               (typed, sets) \<Rightarrow>
                 sets @
                 (case markComplete_str targetLineId typed of
                    (completed, sets') \<Rightarrow>
                      sets' @
                      renderLines_str lineId ty contentLines (lineNum + 1) completed)))
      else [])"
  by pat_completeness auto
termination
  by (relation "measure (\<lambda>(l, ty, cs, n, ls). length cs - n)") auto

declare renderLines_str.simps [simp del]

text \<open>\<open>renderOutputLine\<close> of this variant. Its first argument is \<open>lines\<close>, the state value
  that the function reads from the render in which it was created. It returns at once when
  that value has no line with the id; only then does it read the content, and \<open>split\<close> of
  anything but a string raises.\<close>

definition renderOutputLine_str ::
  "TerminalLine list \<Rightarrow> jsstring \<Rightarrow> content \<Rightarrow> LineType \<Rightarrow> update list" where
  "renderOutputLine_str lines lineId c ty =
     (case findIndex (\<lambda>l. line_id l = lineId) lines of
        None \<Rightarrow> []
      | Some lineIndex \<Rightarrow>
          (case c of
             Str s \<Rightarrow> renderLines_str lineId ty (splitOn 0x0A s) 0 lines
           | _ \<Rightarrow> [Raise]))"

fun applyUpdate :: "update \<Rightarrow> TerminalLine list \<Rightarrow> TerminalLine list" where
  "applyUpdate (SetLines ls) prev = ls"
| "applyUpdate Raise prev = prev"

definition applyUpdates :: "update list \<Rightarrow> TerminalLine list \<Rightarrow> TerminalLine list" where
  "applyUpdates us ls = foldl (\<lambda>s u. applyUpdate u s) ls us"

section \<open>The session (components/Terminal.tsx)\<close>

record TerminalState =
  lines :: "TerminalLine list"
  input :: jsstring
  history :: "jsstring list"
  historyIndex :: int
  isProcessing :: bool

definition welcomeLines :: "TerminalLine list" where
  "welcomeLines =
     [\<lparr>line_id = js ''1'', line_type = WelcomeLine,
       line_content = Str (js ''Welcome to Terminal Portfolio, the friendly interactive shell''),
       displayedContent = Str (js ''Welcome to Terminal Portfolio, the friendly interactive shell''),
       isComplete = True\<rparr>,
      \<lparr>line_id = js ''2'', line_type = WelcomeLine,
       line_content = Str (js ''Type help for instructions on how to use this terminal''),
       displayedContent = Str (js ''Type help for instructions on how to use this terminal''),
       isComplete = True\<rparr>]"

definition initialState :: TerminalState where
  "initialState =
     \<lparr>lines = welcomeLines, input = [], history = [], historyIndex = -1, isProcessing = False\<rparr>"

text \<open>\<open>result.content\<close> and \<open>result.error\<close>: an array has neither property.\<close>

fun resultContent :: "result \<Rightarrow> content" where
  "resultContent (Output out) = content out"
| "resultContent (ArgsArray args) = Undefined"

fun resultError :: "result \<Rightarrow> bool" where
  "resultError (Output out) = error out"
| "resultError (ArgsArray args) = False"

definition outputTypeOf :: "result \<Rightarrow> LineType" where
  "outputTypeOf r = (if resultError r then ErrorLine else OutputLine)"

definition errorLine :: "nat \<Rightarrow> TerminalLine" where
  "errorLine t =
     \<lparr>line_id = js ''error-'' @ numberToString t, line_type = ErrorLine,
      line_content = Str (js ''An error occurred while executing the command.''),
      displayedContent = Str (js ''An error occurred while executing the command.''),
      isComplete = True\<rparr>"

text \<open>\<open>handleCommand\<close>, run to its end: the state after the command was resolved and its
  output rendered, the number of random draws made so far, and whether the page reload was
  requested. \<open>now i\<close> is the \<open>i\<close>-th reading of \<open>Date.now()\<close> during the call.\<close>

definition handleCommand ::
  "runtime \<Rightarrow> nat \<Rightarrow> (nat \<Rightarrow> nat) \<Rightarrow> TerminalState \<Rightarrow> jsstring
     \<Rightarrow> TerminalState \<times> nat \<times> bool" where
  "handleCommand rt k now s command =
     (if trim command = [] \<or> isProcessing s then (s, k, False)
      else
        (let commandLine = \<lparr>line_id = numberToString (now 0), line_type = CommandLine,
                            line_content = Str command, displayedContent = Str command,
                            isComplete = True\<rparr>;
             s1 = s\<lparr>history := history s @ [command], historyIndex := -1,
                    lines := lines s @ [commandLine], input := [], isProcessing := True\<rparr>
         in case getCommandOutput rt k command of
              (Inl e, k') \<Rightarrow>
                (s1\<lparr>lines := lines s1 @ [errorLine (now 1)], isProcessing := False\<rparr>, k', False)
            | (Inr r, k') \<Rightarrow>
                if resultContent r = Str (js ''CLEAR'') then
                  (s1\<lparr>lines := welcomeLines, history := [], historyIndex := -1,
                      isProcessing := False\<rparr>, k', False)
                else if resultContent r = Str (js ''RELOAD'') then
                  (s1\<lparr>isProcessing := False\<rparr>, k', True)
                else
                  (let outputId = js ''output-'' @ numberToString (now 1);
                       outputType = outputTypeOf r;
                       added = lines s1 @
                         [\<lparr>line_id = outputId, line_type = outputType,
                           line_content = resultContent r, displayedContent = Str [],
                           isComplete = False\<rparr>];
                       evs = renderOutputLine outputId (resultContent r) outputType;
                       rendered = applyEvents evs added
                   in if Throw \<in> set evs then
                        (s1\<lparr>lines := rendered @ [errorLine (now 2)], isProcessing := False\<rparr>,
                         k', False)
                      else (s1\<lparr>lines := rendered, isProcessing := False\<rparr>, k', False))))"

section \<open>The session of the string variant\<close>

text \<open>\<open>handleCommand\<close> of this variant differs from the one above in its guard, which does
  not test \<open>isProcessing\<close> (the input element is disabled instead), and in the renderer it
  calls. \<open>renderOutputLine\<close> is the function created by the same render as this
  \<open>handleCommand\<close>, so the \<open>lines\<close> it reads is \<open>lines s\<close>, the transcript at the time of the
  submit: the command line and the output line are added through \<open>setLines\<close> and are in
  the state of later renders only. A transcript that the renderer sets replaces the
  state.\<close>

definition handleCommand_str ::
  "runtime \<Rightarrow> nat \<Rightarrow> (nat \<Rightarrow> nat) \<Rightarrow> TerminalState \<Rightarrow> jsstring
     \<Rightarrow> TerminalState \<times> nat \<times> bool" where
  "handleCommand_str rt k now s command =
     (if trim command = [] then (s, k, False)
      else
        (let commandLine = \<lparr>line_id = numberToString (now 0), line_type = CommandLine,
                            line_content = Str command, displayedContent = Str command,
                            isComplete = True\<rparr>;
             s1 = s\<lparr>history := history s @ [command], historyIndex := -1,
                    lines := lines s @ [commandLine], input := [], isProcessing := True\<rparr>
         in case getCommandOutput_str rt k command of
              (Inl e, k') \<Rightarrow>
                (s1\<lparr>lines := lines s1 @ [errorLine (now 1)], isProcessing := False\<rparr>, k', False)
            | (Inr r, k') \<Rightarrow>
                if resultContent r = Str (js ''CLEAR'') then
                  (s1\<lparr>lines := welcomeLines, history := [], historyIndex := -1,
                      isProcessing := False\<rparr>, k', False)
                else if resultContent r = Str (js ''RELOAD'') then
                  (s1\<lparr>isProcessing := False\<rparr>, k', True)
                else
                  (let outputId = js ''output-'' @ numberToString (now 1);
                       outputType = outputTypeOf r;
                       added = lines s1 @
                         [\<lparr>line_id = outputId, line_type = outputType,
                           line_content = resultContent r, displayedContent = Str [],
                           isComplete = False\<rparr>];
                       us = renderOutputLine_str (lines s) outputId (resultContent r) outputType;
                       rendered = applyUpdates us added
                   in if Raise \<in> set us then
                        (s1\<lparr>lines := rendered @ [errorLine (now 2)], isProcessing := False\<rparr>,
                         k', False)
                      else (s1\<lparr>lines := rendered, isProcessing := False\<rparr>, k', False))))"

section \<open>Notions used in the statements\<close>

text \<open>The plain text of a content value.\<close>

fun contentText :: "content \<Rightarrow> jsstring" where
  "contentText (Str s) = s"
| "contentText (Segs c) = formatToString c"
| "contentText Undefined = []"





text \<open>The content ends with text: it is a plain string, or its last segment has
  non-empty text.\<close>

fun endsWithText :: "content \<Rightarrow> bool" where
  "endsWithText (Str s) = True"
| "endsWithText (Segs c) = (c \<noteq> [] \<and> seg_text (last c) \<noteq> [])"
| "endsWithText Undefined = False"

text \<open>The closed form of the segment loop: the snapshots published while the segment
  \<open>s\<close> is typed after the finished segments \<open>done\<close>, and those of a whole run.\<close>

definition segTicks :: "FormattedOutput \<Rightarrow> TextSegment \<Rightarrow> FormattedOutput list" where
  "segTicks done s =
     map (\<lambda>j. done @ [s\<lparr>seg_text := take j (seg_text s)\<rparr>]) [1..<Suc (length (seg_text s))]"

fun allTicks :: "FormattedOutput \<Rightarrow> FormattedOutput \<Rightarrow> FormattedOutput list" where
  "allTicks done [] = []"
| "allTicks done (s # rest) = segTicks done s @ allTicks (done @ [s]) rest"

text \<open>The snapshots still to come from the loop state \<open>(si, ci)\<close>, and the loop states
  that a run reaches.\<close>

definition ticksFrom :: "FormattedOutput \<Rightarrow> nat \<Rightarrow> nat \<Rightarrow> FormattedOutput list" where
  "ticksFrom c si ci =
     (if si < length c then
        map (\<lambda>j. take si c @ [(c ! si)\<lparr>seg_text := take j (seg_text (c ! si))\<rparr>])
            [Suc ci..<Suc (length (seg_text (c ! si)))]
        @ allTicks (take (Suc si) c) (drop (Suc si) c)
      else [])"

definition validState :: "FormattedOutput \<Rightarrow> FormattedOutput \<Rightarrow> nat \<Rightarrow> nat \<Rightarrow> bool" where
  "validState c ds si ci \<longleftrightarrow>
     si \<le> length c \<and>
     (if ci = 0 then ds = take si c
      else si < length c \<and> ci < length (seg_text (c ! si)) \<and>
           ds = take si c @ [(c ! si)\<lparr>seg_text := take ci (seg_text (c ! si))\<rparr>])"

text \<open>The line that \<open>handleCommand\<close> appends before the renderer starts.\<close>

definition pendingLine :: "jsstring \<Rightarrow> LineType \<Rightarrow> content \<Rightarrow> TerminalLine" where
  "pendingLine lineId ty c =
     \<lparr>line_id = lineId, line_type = ty, line_content = c, displayedContent = Str [],
      isComplete = False\<rparr>"

text \<open>The line that the renderer of the string variant leaves for the \<open>n\<close>-th piece of a
  content, \<open>n\<close> counted from 0, when the piece is not the first.\<close>

definition pieceLine :: "jsstring \<Rightarrow> LineType \<Rightarrow> jsstring list \<Rightarrow> nat \<Rightarrow> TerminalLine" where
  "pieceLine lineId ty pieces n =
     \<lparr>line_id = lineId @ js ''-'' @ numberToString n, line_type = ty,
      line_content = Str (pieces ! n), displayedContent = Str (pieces ! n), isComplete = True\<rparr>"

text \<open>A runtime for the concrete instances: the \<open>k\<close>-th draw scaled by \<open>n\<close> and
  floored is \<open>k mod n\<close>, and the message is the one V8 gives.\<close>

definition demoRuntime :: runtime where
  "demoRuntime =
     \<lparr>toLowerCase = asciiLowerCase,
      randomFloor = (\<lambda>k n. k mod n),
      notCallableMessage = js ''commands[command] is not a function''\<rparr>"

text \<open>A string is the token \<open>w\<close>, or begins with \<open>w\<close> and a space character.\<close>

definition startsWithToken :: "jsstring \<Rightarrow> jsstring \<Rightarrow> bool" where
  "startsWithToken w s \<longleftrightarrow> s = w \<or> take (Suc (length w)) s = w @ [0x20]"

text \<open>The own keys of the registry, and the inherited property names that survive
  lowercasing.\<close>

definition registeredNames :: "jsstring list" where
  "registeredNames = map js
     [''help'', ''about'', ''email'', ''social'', ''projects'', ''stack'', ''blog'', ''videos'',
      ''podcasts'', ''resume'', ''history'', ''sudo'', ''clear'', ''reload'']"

definition inheritedNames :: "jsstring list" where
  "inheritedNames = map js [''constructor'', ''__proto__'']"

section \<open>The renderer in closed form\<close>

lemma ticksFrom_start:
  "si < length c \<Longrightarrow> ticksFrom c si 0 = allTicks (take si c) (drop si c)"
  by (simp add: ticksFrom_def segTicks_def Cons_nth_drop_Suc[symmetric] take_Suc_conv_app_nth)

lemma ticksFrom_zero:
  "si \<le> length c \<Longrightarrow> ticksFrom c si 0 = allTicks (take si c) (drop si c)"
  by (cases "si < length c") (simp_all add: ticksFrom_start, simp add: ticksFrom_def)

lemma renderString_closed:
  "i \<le> length s \<Longrightarrow>
   renderString l s (take i s) i =
     map (\<lambda>j. SetDisplayed l (Str (take j s))) [Suc i..<Suc (length s)] @ [SetComplete l]"
proof (induction "length s - i" arbitrary: i)
  case 0
  then show ?case by (subst renderString.simps) simp
next
  case (Suc n)
  then have lt: "i < length s" by simp
  have step: "take i s @ [s ! i] = take (Suc i) s"
    using lt by (simp add: take_Suc_conv_app_nth)
  have ih: "renderString l s (take (Suc i) s) (Suc i) =
     map (\<lambda>j. SetDisplayed l (Str (take j s))) [Suc (Suc i)..<Suc (length s)] @ [SetComplete l]"
    using Suc.hyps(1)[of "Suc i"] Suc.hyps(2) lt by simp
  have "[Suc i..<Suc (length s)] = Suc i # [Suc (Suc i)..<Suc (length s)]"
    using lt by (simp add: upt_conv_Cons)
  then show ?case
    using lt ih step by (subst renderString.simps) simp
qed

lemma renderSegments_closed:
  "validState c ds si ci \<Longrightarrow>
   renderSegments l c ds si ci = map (\<lambda>d. SetDisplayed l (Segs d)) (ticksFrom c si ci) @ [SetComplete l]"
proof (induction l c ds si ci rule: renderSegments.induct)
  case (1 l c ds si ci)
  show ?case
  proof (cases "si < length c")
    case False
    then show ?thesis by (subst renderSegments.simps) (simp add: ticksFrom_def)
  next
    case inb: True
    define s where "s = c ! si"
    define n where "n = length (seg_text s)"
    define opened where "opened = (if ci = 0 then ds @ [(c ! si)\<lparr>seg_text := []\<rparr>] else ds)"
    have opened_eq: "opened = take si c @ [s\<lparr>seg_text := take ci (seg_text s)\<rparr>]"
      using "1.prems" by (auto simp: validState_def opened_def s_def split: if_splits)
    have opened_ne: "opened \<noteq> []" by (simp add: opened_eq)
    have ci_le: "ci = 0 \<or> ci < n"
      using "1.prems" by (auto simp: validState_def n_def s_def split: if_splits)
    have full: "take si c @ [s\<lparr>seg_text := take n (seg_text s)\<rparr>] = take (Suc si) c"
      using inb by (simp add: n_def s_def take_Suc_conv_app_nth)
    have next0: "ticksFrom c (Suc si) 0 = allTicks (take (Suc si) c) (drop (Suc si) c)"
      using inb by (simp add: ticksFrom_zero)
    show ?thesis
    proof (cases "ci < n")
      case False
      then have ci0: "ci = 0" and n0: "n = 0" using ci_le by auto
      have opened_full: "opened = take (Suc si) c"
        using full n0 ci0 by (simp add: opened_eq)
      have vs: "validState c opened (si + 1) 0"
        using inb by (simp add: validState_def opened_full)
      have ih: "renderSegments l c opened (si + 1) 0 =
          map (\<lambda>d. SetDisplayed l (Segs d)) (ticksFrom c (si + 1) 0) @ [SetComplete l]"
        using "1.IH"(3)[OF inb refl opened_def[unfolded s_def] _ vs] False
        by (simp add: n_def s_def)
      have tf: "ticksFrom c si ci = ticksFrom c (Suc si) 0"
        using inb n0 ci0 next0 by (simp add: ticksFrom_def n_def s_def)
      show ?thesis
        using inb False ih tf
        by (subst renderSegments.simps) (simp add: opened_def s_def n_def Let_def)
    next
      case lt: True
      define typed where "typed = opened[length opened - 1 :=
           (last opened)\<lparr>seg_text := seg_text (last opened) @ [seg_text (c ! si) ! ci]\<rparr>]"
      have typed_eq: "typed = take si c @ [s\<lparr>seg_text := take (Suc ci) (seg_text s)\<rparr>]"
        using lt by (simp add: typed_def opened_eq n_def s_def take_Suc_conv_app_nth list_update_append)
      have lt': "ci < length (seg_text (c ! si))" using lt by (simp add: n_def s_def)
      have unfold: "renderSegments l c ds si ci =
          SetDisplayed l (Segs typed) #
            (if ci + 1 \<ge> n then renderSegments l c typed (si + 1) 0
             else renderSegments l c typed si (ci + 1))"
      proof -
        have typed_alt: "opened[length opened - Suc 0 :=
           (last opened)\<lparr>seg_text := seg_text (last opened) @ [seg_text (c ! si) ! ci]\<rparr>] = typed"
          by (simp add: typed_def)
        show ?thesis
          using inb lt' opened_ne
          by (subst renderSegments.simps)
             (simp add: Let_def opened_def[symmetric] typed_alt n_def s_def)
      qed
      have upt: "[Suc ci..<Suc n] = Suc ci # [Suc (Suc ci)..<Suc n]"
        using lt by (simp add: upt_conv_Cons)
      have tf: "ticksFrom c si ci =
          typed # map (\<lambda>j. take si c @ [s\<lparr>seg_text := take j (seg_text s)\<rparr>]) [Suc (Suc ci)..<Suc n]
                @ allTicks (take (Suc si) c) (drop (Suc si) c)"
        using inb upt by (simp add: ticksFrom_def typed_eq n_def[symmetric] s_def[symmetric])
      show ?thesis
      proof (cases "ci + 1 \<ge> n")
        case True
        then have eq: "Suc ci = n" using lt by simp
        have typed_full: "typed = take (Suc si) c"
          using full eq by (simp add: typed_eq)
        have vs: "validState c typed (si + 1) 0"
          using inb by (simp add: validState_def typed_full)
        have "length (seg_text (c ! si)) \<le> ci + 1" using True by (simp add: n_def s_def)
        from "1.IH"(1)[OF inb refl opened_def lt' opened_ne typed_def this vs]
        have ih: "renderSegments l c typed (si + 1) 0 =
          map (\<lambda>d. SetDisplayed l (Segs d)) (ticksFrom c (si + 1) 0) @ [SetComplete l]" .
        show ?thesis
          using unfold True ih tf next0 eq by simp
      next
        case False
        then have lt2: "Suc ci < n" by simp
        have vs: "validState c typed si (ci + 1)"
          using inb lt2 by (simp add: validState_def typed_eq n_def s_def)
        have "\<not> length (seg_text (c ! si)) \<le> ci + 1" using False by (simp add: n_def s_def)
        from "1.IH"(2)[OF inb refl opened_def lt' opened_ne typed_def this vs]
        have ih: "renderSegments l c typed si (ci + 1) =
          map (\<lambda>d. SetDisplayed l (Segs d)) (ticksFrom c si (ci + 1)) @ [SetComplete l]" .
        have tf2: "ticksFrom c si (ci + 1) =
             map (\<lambda>j. take si c @ [s\<lparr>seg_text := take j (seg_text s)\<rparr>]) [Suc (Suc ci)..<Suc n]
                @ allTicks (take (Suc si) c) (drop (Suc si) c)"
          using inb by (simp add: ticksFrom_def n_def[symmetric] s_def[symmetric])
        show ?thesis
          using unfold False ih tf tf2 by simp
      qed
    qed
  qed
qed

lemma renderSegments_initial:
  "renderSegments l c [] 0 0 = map (\<lambda>d. SetDisplayed l (Segs d)) (allTicks [] c) @ [SetComplete l]"
  using renderSegments_closed[of c "[]" 0 0 l] by (simp add: validState_def ticksFrom_zero)












lemma upt_shift: "[Suc n..<Suc (n + m)] = map (\<lambda>k. k + n) [Suc 0..<Suc m]"
  by (rule nth_equalityI) (simp_all del: upt_Suc)

lemma upt_split: "[Suc 0..<Suc (n + m)] = [Suc 0..<Suc n] @ [Suc n..<Suc (n + m)]"
  using upt_add_eq_append[of "Suc 0" "Suc n" m] by (simp del: upt_Suc)

lemma segTicks_text:
  "map formatToString (segTicks d s) =
     map (\<lambda>k. formatToString d @ take k (seg_text s @ r)) [Suc 0..<Suc (length (seg_text s))]"
  unfolding segTicks_def formatToString_def by (simp del: upt_Suc)

lemma allTicks_text:
  "map formatToString (allTicks d rest) =
     map (\<lambda>k. formatToString d @ take k (formatToString rest))
         [Suc 0..<Suc (length (formatToString rest))]"
proof (induction rest arbitrary: d)
  case Nil
  then show ?case by (simp add: formatToString_def)
next
  case (Cons s rest)
  let ?n = "length (seg_text s)" and ?m = "length (formatToString rest)"
  have fs: "formatToString (s # rest) = seg_text s @ formatToString rest"
    by (simp add: formatToString_def)
  have fd: "formatToString (d @ [s]) = formatToString d @ seg_text s"
    by (simp add: formatToString_def)
  have b: "map formatToString (allTicks (d @ [s]) rest) =
      map (\<lambda>k. formatToString d @ take k (seg_text s @ formatToString rest)) [Suc ?n..<Suc (?n + ?m)]"
    unfolding Cons.IH fd upt_shift by (simp del: upt_Suc)
  show ?case
    unfolding allTicks.simps map_append fs length_append upt_split
    using segTicks_text[of d s "formatToString rest"] b by (simp del: upt_Suc)
qed

lemma ticks_closed: "ticks (map (SetDisplayed l) cs @ [SetComplete l]) = cs"
  by (induction cs) simp_all

lemma renderString_initial:
  "renderString l s [] 0 = map (SetDisplayed l) (map (\<lambda>j. Str (take j s)) [Suc 0..<Suc (length s)]) @ [SetComplete l]"
  using renderString_closed[of 0 s l] by (simp add: comp_def del: upt_Suc)

lemma renderSegments_initial':
  "renderSegments l c [] 0 0 = map (SetDisplayed l) (map Segs (allTicks [] c)) @ [SetComplete l]"
  by (simp add: renderSegments_initial comp_def)



lemma surrogates_disjoint: "isLowSurrogate d \<Longrightarrow> \<not> isHighSurrogate d"
proof
  assume "isLowSurrogate d" "isHighSurrogate d"
  then have "(0xDC00 :: 16 word) \<le> d" "d \<le> 0xDBFF"
    by (simp_all add: isHighSurrogate_def isLowSurrogate_def)
  then have "(0xDC00 :: 16 word) \<le> 0xDBFF" by (rule order_trans)
  then show False by simp
qed

lemma wholeCodePoints_take:
  "wholeCodePoints xs \<Longrightarrow> k < length xs \<Longrightarrow>
   wholeCodePoints (take (Suc k) xs) \<longleftrightarrow> \<not> isHighSurrogate (xs ! k)"
proof (induction xs arbitrary: k rule: wholeCodePoints.induct)
  case 1
  then show ?case by simp
next
  case (2 c)
  then show ?case by simp
next
  case (3 c d cs)
  show ?case
  proof (cases "isHighSurrogate c")
    case True
    have dl: "isLowSurrogate d" and wcs: "wholeCodePoints cs" using "3.prems" True by auto
    have dnh: "\<not> isHighSurrogate d"
      using dl surrogates_disjoint by blast
    show ?thesis
    proof (cases k)
      case 0
      then show ?thesis using True by simp
    next
      case (Suc k1)
      show ?thesis
      proof (cases k1)
        case 0
        then show ?thesis using Suc True dl dnh by simp
      next
        case (Suc k2)
        have "k2 < length cs" using "3.prems" \<open>k = Suc k1\<close> Suc by simp
        from "3.IH"(1)[OF True wcs this] show ?thesis
          using \<open>k = Suc k1\<close> Suc True dl by simp
      qed
    qed
  next
    case False
    have cl: "\<not> isLowSurrogate c" and w: "wholeCodePoints (d # cs)" using "3.prems" False by auto
    show ?thesis
    proof (cases k)
      case 0
      then show ?thesis using False cl by simp
    next
      case (Suc k1)
      have "k1 < length (d # cs)" using "3.prems" Suc by simp
      from "3.IH"(2)[OF False w this] show ?thesis
        using Suc False cl by simp
    qed
  qed
qed



lemma findIndex_bound: "findIndex p xs = Some i \<Longrightarrow> i < length xs"
  by (induction xs arbitrary: i) (auto split: if_splits)

lemma findIndex_cong_ids:
  "map line_id ls' = map line_id ls \<Longrightarrow>
   findIndex (\<lambda>x. line_id x = l) ls' = findIndex (\<lambda>x. line_id x = l) ls"
proof (induction ls arbitrary: ls')
  case Nil
  then show ?case by simp
next
  case (Cons a ls)
  then obtain b ls1 where ls': "ls' = b # ls1" by (cases ls') auto
  with Cons.prems have "line_id b = line_id a" "map line_id ls1 = map line_id ls" by auto
  with Cons.IH[of ls1] show ?case by (simp add: ls')
qed

lemma map_update_same:
  "i < length xs \<Longrightarrow> f y = f (xs ! i) \<Longrightarrow> map f (xs[i := y]) = map f xs"
  by (simp add: list_eq_iff_nth_eq nth_list_update)

lemma updateDisplayed_frame:
  "length (updateDisplayed l c ls) = length ls"
  "map line_id (updateDisplayed l c ls) = map line_id ls"
  "map line_type (updateDisplayed l c ls) = map line_type ls"
  "map line_content (updateDisplayed l c ls) = map line_content ls"
  by (auto simp: updateDisplayed_def map_update_same dest: findIndex_bound split: option.splits)

lemma updateComplete_frame:
  "length (updateComplete l ls) = length ls"
  "map line_id (updateComplete l ls) = map line_id ls"
  "map line_type (updateComplete l ls) = map line_type ls"
  "map line_content (updateComplete l ls) = map line_content ls"
  by (auto simp: updateComplete_def map_update_same dest: findIndex_bound split: option.splits)

lemma applyEvent_frame:
  "length (applyEvent e ls) = length ls"
  "map line_id (applyEvent e ls) = map line_id ls"
  "map line_type (applyEvent e ls) = map line_type ls"
  "map line_content (applyEvent e ls) = map line_content ls"
  by (cases e; simp add: updateDisplayed_frame updateComplete_frame)+

lemma applyEvents_frame:
  "length (applyEvents evs ls) = length ls \<and>
   map line_id (applyEvents evs ls) = map line_id ls \<and>
   map line_type (applyEvents evs ls) = map line_type ls \<and>
   map line_content (applyEvents evs ls) = map line_content ls"
  unfolding applyEvents_def
  by (induction evs arbitrary: ls) (simp_all add: applyEvent_frame)

lemma applyEvents_Cons: "applyEvents (e # evs) ls = applyEvents evs (applyEvent e ls)"
  by (simp add: applyEvents_def)

lemma applyEvents_reveal:
  assumes "findIndex (\<lambda>x. line_id x = l) ls = Some i"
  shows "applyEvents (map (SetDisplayed l) cs @ [SetComplete l]) ls =
         ls[i := (ls ! i)\<lparr>displayedContent := (if cs = [] then displayedContent (ls ! i) else last cs),
                            isComplete := True\<rparr>]"
  using assms
proof (induction cs arbitrary: ls)
  case Nil
  then show ?case by (simp add: applyEvents_def updateComplete_def)
next
  case (Cons c cs)
  let ?ls1 = "updateDisplayed l c ls"
  have i: "i < length ls" using Cons.prems by (rule findIndex_bound)
  have ls1: "?ls1 = ls[i := (ls ! i)\<lparr>displayedContent := c\<rparr>]"
    using Cons.prems by (simp add: updateDisplayed_def)
  have "findIndex (\<lambda>x. line_id x = l) ?ls1 = Some i"
    using findIndex_cong_ids[OF updateDisplayed_frame(2)[of l c ls], of l] Cons.prems by simp
  from Cons.IH[OF this] show ?case
    using i by (simp add: applyEvents_Cons ls1)
qed

section \<open>Facts about the dispatcher\<close>

lemma splitOn_nonempty: "splitOn c s \<noteq> []"
  by (induction s) (auto split: list.splits)

lemma join_Cons: "join sep (x # ys) = (if ys = [] then x else x @ sep @ join sep ys)"
  by (cases ys) simp_all

lemma join_splitOn: "join [c] (splitOn c s) = s"
proof (induction s)
  case Nil
  then show ?case by simp
next
  case (Cons x xs)
  show ?case
  proof (cases "x = c")
    case True
    then show ?thesis using Cons.IH splitOn_nonempty[of c xs] by (simp add: join_Cons)
  next
    case False
    obtain p ps where sp: "splitOn c xs = p # ps"
      using splitOn_nonempty[of c xs] by (cases "splitOn c xs") auto
    then show ?thesis using False Cons.IH by (auto simp: join_Cons split: if_splits)
  qed
qed

lemma splitOn_pieces: "p \<in> set (splitOn c s) \<Longrightarrow> c \<notin> set p"
proof (induction s arbitrary: p)
  case Nil
  then show ?case by simp
next
  case (Cons x xs)
  obtain q qs where sp: "splitOn c xs = q # qs"
    using splitOn_nonempty[of c xs] by (cases "splitOn c xs") auto
  show ?case
  proof (cases "x = c")
    case True
    then show ?thesis using Cons by auto
  next
    case False
    with Cons.prems sp have "p = x # q \<or> p \<in> set qs" by auto
    then show ?thesis
      using Cons.IH[of q] Cons.IH[of p] sp False by auto
  qed
qed

lemma parseInput_randomFloor [simp]:
  "parseInput (rt\<lparr>randomFloor := rf\<rparr>) raw = parseInput rt raw"
  by (simp add: parseInput_def)

lemma isUpdateCommand_randomFloor [simp]:
  "isUpdateCommand (rt\<lparr>randomFloor := rf\<rparr>) args = isUpdateCommand rt args"
  by (simp add: isUpdateCommand_def)

lemma parseInput_pieces:
  "parseInput rt raw = (command, args) \<Longrightarrow> splitOn 0x20 (toLowerCase rt (trim raw)) = command # args"
  using splitOn_nonempty[of "0x20" "toLowerCase rt (trim raw)"]
  by (auto simp: parseInput_def Let_def split: list.splits)

lemma splitOn_single: "c \<notin> set w \<Longrightarrow> splitOn c w = [w]"
  by (induction w) (auto split: list.splits)

lemma splitOn_first: "c \<notin> set w \<Longrightarrow> splitOn c (w @ c # rest) = w # splitOn c rest"
  by (induction w) (auto split: list.splits)

lemma parseInput_token:
  assumes "0x20 \<notin> set w" and "startsWithToken w (toLowerCase rt (trim raw))"
  shows "fst (parseInput rt raw) = w"
proof -
  let ?s = "toLowerCase rt (trim raw)"
  from assms(2) consider "?s = w" | "take (Suc (length w)) ?s = w @ [0x20]"
    by (auto simp: startsWithToken_def)
  then show ?thesis
  proof cases
    case 1
    then show ?thesis using splitOn_single[OF assms(1)] by (simp add: parseInput_def)
  next
    case 2
    have "?s = take (Suc (length w)) ?s @ drop (Suc (length w)) ?s" by simp
    then have "?s = w @ 0x20 # drop (Suc (length w)) ?s" unfolding 2 by simp
    then have "splitOn 0x20 ?s = w # splitOn 0x20 (drop (Suc (length w)) ?s)"
      using splitOn_first[OF assms(1), of "drop (Suc (length w)) ?s"] by simp
    then show ?thesis by (simp add: parseInput_def)
  qed
qed

lemma js_space: "js '' '' = [0x20]"
  by (simp add: js_def)

lemma dispatch_handler:
  assumes "parseInput rt raw = (command, args)" "command \<noteq> js ''clear''" "command \<noteq> js ''reload''"
    and "reg command = Some p"
  shows "dispatch reg rt k raw =
     (case callProperty p rt k args of
        (Inl e, k') \<Rightarrow> (Inr (Output (errorOutput e)), k')
      | (Inr r, k') \<Rightarrow> (Inr r, k'))"
  using assms by (simp add: dispatch_def)

lemma dispatch_unknown:
  assumes "parseInput rt raw = (command, args)" "command \<noteq> js ''clear''" "command \<noteq> js ''reload''"
    and "reg command = None"
  shows "dispatch reg rt k raw = (Inr (Output (notFoundOutput command)), k)"
  using assms by (simp add: dispatch_def)

lemma getCommandOutput_cases:
  assumes "parseInput rt raw = (command, args)"
  shows "getCommandOutput rt k raw =
     (if command = js ''clear'' then
        (Inr (Output \<lparr>content = Str (js ''CLEAR''), error = False\<rparr>), k)
      else if command = js ''reload'' then
        (Inr (Output \<lparr>content = Str (js ''RELOAD''), error = False\<rparr>), k)
      else
        (case commands command of
           Some p \<Rightarrow>
             (case callProperty p rt k args of
                (Inl e, k') \<Rightarrow> (Inr (Output (errorOutput e)), k')
              | (Inr r, k') \<Rightarrow> (Inr r, k'))
         | None \<Rightarrow> (Inr (Output (notFoundOutput command)), k)))"
  using assms by (simp add: getCommandOutput_def dispatch_def)

lemma dispatch_returns: "\<exists>r k'. dispatch reg rt k raw = (Inr r, k')"
  by (auto simp: dispatch_def split: prod.splits option.splits sum.splits)

lemma parse_sudo_Foo: "parseInput demoRuntime (js ''sudo Foo'') = (js ''sudo'', [js ''foo''])"
  by (simp add: parseInput_def js_def trim_def isWhiteSpace_def demoRuntime_def asciiLowerCase_def asciiLowerUnit_def)

lemma commands_None_iff:
  "commands name = None \<longleftrightarrow> name \<notin> set registeredNames \<and> name \<notin> set inheritedNames"
  by (simp add: commands_def registeredNames_def inheritedNames_def)

lemma parse_FOO: "parseInput demoRuntime (js ''FOO'') = (js ''foo'', [])"
  by (simp add: parseInput_def js_def trim_def isWhiteSpace_def demoRuntime_def asciiLowerCase_def asciiLowerUnit_def)

lemma updateLoop_size:
  "length (fst (updateLoop rt k i n ls)) = length ls + 6 * (n - i) \<and>
   snd (updateLoop rt k i n ls) = k + 8 * (n - i)"
proof (induction rt k i n ls rule: updateLoop.induct)
  case (1 rt k i n ls)
  show ?case
  proof (cases "i < n")
    case True
    have "n - i = Suc (n - (i + 1))" using True by simp
    then show ?thesis
      using True "1.IH"[OF True refl refl refl refl]
      by (subst (1 2) updateLoop.simps) (simp add: Let_def)
  next
    case False
    then show ?thesis by (subst (1 2) updateLoop.simps) simp
  qed
qed

lemma generateUpdateLines_size:
  "length (fst (generateUpdateLines rt k)) = 6 * (randomFloor rt k 8 + 5) + 14 \<and>
   snd (generateUpdateLines rt k) = k + 8 * (randomFloor rt k 8 + 5) + 3"
  using updateLoop_size[of rt "k + 1" 0 "randomFloor rt k 8 + 5" "[]"]
  by (auto simp: generateUpdateLines_def Let_def split: prod.splits)

lemma parse_sudo: "parseInput demoRuntime (js ''sudo'') = (js ''sudo'', [])"
  by (simp add: parseInput_def js_def trim_def isWhiteSpace_def demoRuntime_def asciiLowerCase_def asciiLowerUnit_def)

text \<open>The test for an update is a substring test on the joined arguments.\<close>

lemma reinstallation_is_update: "isUpdateCommand demoRuntime [js ''reinstallation'']"
  by (simp add: isUpdateCommand_def js_def demoRuntime_def asciiLowerCase_def asciiLowerUnit_def)

lemma sudo_update_length:
  assumes "parseInput rt raw = (js ''sudo'', args)" and "isUpdateCommand rt args"
  shows "\<exists>c. fst (getCommandOutput rt k raw) = Inr (Output \<lparr>content = Segs c, error = False\<rparr>) \<and>
       length c = 6 * (randomFloor rt k 8 + 5) + 20 \<and>
       snd (getCommandOutput rt k raw) = k + 8 * (randomFloor rt k 8 + 5) + 3"
proof -
  have c: "commands (js ''sudo'') = Some (Callable cmd_sudo)" by (simp add: commands_def js_def)
  have n: "js ''sudo'' \<noteq> js ''clear''" "js ''sudo'' \<noteq> js ''reload''" by (simp_all add: js_def)
  show ?thesis
    using generateUpdateLines_size[of rt k]
    unfolding getCommandOutput_def
      dispatch_handler[where reg = commands and p = "Callable cmd_sudo", OF assms(1) n c]
    by (auto simp: callProperty_def cmd_sudo_def assms(2) combine_def split: prod.splits)
qed

lemma sudo_update_size:
  "\<exists>c. fst (getCommandOutput demoRuntime k (js ''sudo'')) = Inr (Output \<lparr>content = Segs c, error = False\<rparr>) \<and>
       length c = 6 * (randomFloor demoRuntime k 8 + 5) + 20 \<and>
       snd (getCommandOutput demoRuntime k (js ''sudo'')) = k + 8 * (randomFloor demoRuntime k 8 + 5) + 3"
  by (rule sudo_update_length[OF parse_sudo]) (simp add: isUpdateCommand_def)

lemma static_property:
  assumes "commands name = Some p" "name \<noteq> js ''sudo''"
  shows "fst (callProperty p (rt\<lparr>randomFloor := rf\<rparr>) k args) =
         fst (callProperty p (rt\<lparr>randomFloor := rf'\<rparr>) k' args) \<and>
         snd (callProperty p rt k args) = k"
  using assms
  by (auto simp: commands_def callProperty_def staticHandler_def cmd_help_def cmd_about_def
        cmd_email_def cmd_social_def cmd_projects_def cmd_stack_def cmd_blog_def cmd_videos_def
        cmd_podcasts_def cmd_resume_def cmd_history_def cmd_clear_def cmd_reload_def
        objectConstructor_def split: if_splits)

lemma sudo_static:
  assumes "\<not> isUpdateCommand rt args"
  shows "fst (callProperty (Callable cmd_sudo) (rt\<lparr>randomFloor := rf\<rparr>) k args) =
         fst (callProperty (Callable cmd_sudo) (rt\<lparr>randomFloor := rf'\<rparr>) k' args) \<and>
         snd (callProperty (Callable cmd_sudo) rt k args) = k"
  using assms by (simp add: callProperty_def cmd_sudo_def)

lemma commands_sudo: "commands (js ''sudo'') = Some (Callable cmd_sudo)"
  by (simp add: commands_def js_def)

lemma parse_projects: "parseInput demoRuntime (js ''projects'') = (js ''projects'', [])"
  by (simp add: parseInput_def js_def trim_def isWhiteSpace_def demoRuntime_def asciiLowerCase_def asciiLowerUnit_def)

lemma accepted_submit_history:
  assumes "\<not> isProcessing s" "trim command \<noteq> []"
    and "getCommandOutput rt k command = (Inr r, k')" "resultContent r \<noteq> Str (js ''CLEAR'')"
  shows "history (fst (handleCommand rt k now s command)) = history s @ [command]"
  using assms by (simp add: handleCommand_def Let_def)

lemma cmd_sudo_shape:
  "\<exists>c k'. cmd_sudo rt k args = (Inr (Output \<lparr>content = c, error = False\<rparr>), k')"
  by (simp add: cmd_sudo_def split: prod.splits)

text \<open>The inherited \<open>constructor\<close> is found by \<open>in\<close> and returns the argument array: the
  result is not a \<open>CommandOutput\<close>.\<close>

lemma inherited_constructor_result:
  assumes "parseInput rt raw = (js ''constructor'', args)"
  shows "getCommandOutput rt k raw = (Inr (ArgsArray args), k)"
proof -
  have n: "js ''constructor'' \<noteq> js ''clear''" "js ''constructor'' \<noteq> js ''reload''"
    by (simp_all add: js_def)
  have c: "commands (js ''constructor'') = Some (Callable objectConstructor)"
    by (simp add: commands_def js_def)
  show ?thesis
    unfolding getCommandOutput_def
      dispatch_handler[where reg = commands and p = "Callable objectConstructor", OF assms n c]
    by (simp add: callProperty_def objectConstructor_def)
qed


text \<open>A segment with empty text at the end of a content is opened but never published,
  as no character of it is typed.\<close>

lemma trailing_empty_segment_unpublished:
  "last (ticks (renderOutputLine (js ''out'')
          (Segs [text_default (js ''a'') False, text_default [] False]) OutputLine))
   \<noteq> Segs [text_default (js ''a'') False, text_default [] False]"
  by (simp add: renderSegments_initial' ticks_closed segTicks_def js_def text_default_def mkText_def)

text \<open>The string branch of \<open>renderOutputLine\<close> in \<open>components/Terminal.tsx\<close> reveals
  a string into the one line with the given id, line breaks included, and creates no
  line.\<close>

lemma string_branch_single_line:
  "ticks (renderOutputLine l (Str s) ty) = map (\<lambda>j. Str (take j s)) [1..<Suc (length s)] \<and>
   length (applyEvents (renderOutputLine l (Str s) ty) ls) = length ls \<and>
   map line_id (applyEvents (renderOutputLine l (Str s) ty) ls) = map line_id ls \<and>
   map line_type (applyEvents (renderOutputLine l (Str s) ty) ls) = map line_type ls \<and>
   (s \<noteq> [] \<and> findIndex (\<lambda>x. line_id x = l) ls = Some i \<longrightarrow>
      applyEvents (renderOutputLine l (Str s) ty) ls =
        ls[i := (ls ! i)\<lparr>displayedContent := Str s, isComplete := True\<rparr>])"
proof -
  let ?ts = "map (\<lambda>j. Str (take j s)) [Suc 0..<Suc (length s)]"
  have evs: "renderOutputLine l (Str s) ty = map (SetDisplayed l) ?ts @ [SetComplete l]"
    unfolding renderOutputLine.simps by (rule renderString_initial)
  have t: "ticks (renderOutputLine l (Str s) ty) = ?ts"
    unfolding evs by (rule ticks_closed)
  have fin: "applyEvents (renderOutputLine l (Str s) ty) ls =
        ls[i := (ls ! i)\<lparr>displayedContent := Str s, isComplete := True\<rparr>]"
    if "s \<noteq> []" "findIndex (\<lambda>x. line_id x = l) ls = Some i"
  proof -
    have "?ts \<noteq> []" "last ?ts = Str s" using that(1) by (simp_all add: last_map del: upt_Suc)
    then show ?thesis
      unfolding evs applyEvents_reveal[OF that(2)] by simp
  qed
  show ?thesis
    using t fin applyEvents_frame[of "renderOutputLine l (Str s) ty" ls] by simp
qed

text \<open>Every content that \<open>getCommandOutput\<close> returns in a \<open>CommandOutput\<close> is a plain
  string or ends with a segment of non-empty text.\<close>

lemma ends_append: "seg_text s \<noteq> [] \<Longrightarrow> endsWithText (Segs (xs @ [s]))"
  by simp

lemma text_nonempty:
  "s \<noteq> [] \<Longrightarrow> seg_text (mkText c s b) \<noteq> []"
  by (simp add: mkText_def)

lemma newline_segment: "seg_text (text_default (js ''\<newline>'') False) \<noteq> []"
  by (simp add: text_default_def mkText_def js_def)

lemma createLink_ends: "createLink label u = butlast (createLink label u) @ [text_default (js ''\<newline>'') False]"
  by (simp add: createLink_def)










section \<open>Facts about the string variant\<close>

lemma findIndex_None_iff: "findIndex p xs = None \<longleftrightarrow> (\<forall>x \<in> set xs. \<not> p x)"
  by (induction xs) auto

text \<open>The renderer does nothing when the \<open>lines\<close> it reads has no line with the id.\<close>

lemma renderOutputLine_str_stale:
  assumes "lineId \<notin> line_id ` set ls"
  shows "renderOutputLine_str ls lineId c ty = []"
proof -
  have "findIndex (\<lambda>l. line_id l = lineId) ls = None"
    using assms unfolding findIndex_None_iff by auto
  then show ?thesis by (simp add: renderOutputLine_str_def)
qed

text \<open>The renderer when the \<open>lines\<close> it reads has the line with the id. Typing a piece
  into a line that is found sets its displayed content to the piece, character by
  character.\<close>

lemma findIndex_map: "findIndex (\<lambda>l. f l = t) xs = findIndex (\<lambda>x. x = t) (map f xs)"
  by (induction xs) auto

lemma findIndex_ids:
  assumes "map line_id xs = map line_id ys"
  shows "findIndex (\<lambda>l. line_id l = t) xs = findIndex (\<lambda>l. line_id l = t) ys"
  using findIndex_map[of line_id t xs] findIndex_map[of line_id t ys] assms by simp

lemma findIndex_Some_less: "findIndex p xs = Some j \<Longrightarrow> j < length xs"
  by (induction xs arbitrary: j) (auto split: if_splits)

lemma findIndex_append_found: "findIndex p xs = Some j \<Longrightarrow> findIndex p (xs @ ys) = Some j"
  by (induction xs arbitrary: j) (auto split: if_splits)

lemma findIndex_append_fresh:
  "findIndex p xs = None \<Longrightarrow> p y \<Longrightarrow> findIndex p (xs @ [y]) = Some (length xs)"
  by (induction xs) (auto split: if_splits)

lemma map_update_nth: "(map f xs)[j := f (xs ! j)] = map f xs"
  by (metis list_update_id map_update)

lemma findIndex_displayed:
  "findIndex (\<lambda>l. line_id l = t) (ls[j := (ls ! j)\<lparr>displayedContent := d\<rparr>]) =
   findIndex (\<lambda>l. line_id l = t) ls"
proof (rule findIndex_ids)
  have "map line_id (ls[j := (ls ! j)\<lparr>displayedContent := d\<rparr>]) = (map line_id ls)[j := line_id (ls ! j)]"
    by (simp add: map_update)
  then show "map line_id (ls[j := (ls ! j)\<lparr>displayedContent := d\<rparr>]) = map line_id ls"
    by (simp add: map_update_nth)
qed

lemma applyUpdates_append: "applyUpdates (a @ b) prev = applyUpdates b (applyUpdates a prev)"
  by (simp add: applyUpdates_def)

lemma applyUpdates_Cons: "applyUpdates (SetLines x # us) prev = applyUpdates us x"
  by (simp add: applyUpdates_def)

lemma applyUpdates_Nil: "applyUpdates [] prev = prev"
  by (simp add: applyUpdates_def)

lemma typeChars_str_found:
  assumes "findIndex (\<lambda>l. line_id l = t) ls = Some j"
  shows "fst (typeChars_str t cur ls d i) =
           (if i < length cur then ls[j := (ls ! j)\<lparr>displayedContent := Str (d @ drop i cur)\<rparr>]
            else ls) \<and>
         applyUpdates (snd (typeChars_str t cur ls d i)) prev =
           (if i < length cur then ls[j := (ls ! j)\<lparr>displayedContent := Str (d @ drop i cur)\<rparr>]
            else prev)"
  using assms
proof (induction t cur ls d i arbitrary: prev rule: typeChars_str.induct)
  case (1 t cur ls d i)
  show ?case
  proof (cases "i < length cur")
    case False
    then show ?thesis by (subst (1 2) typeChars_str.simps) (simp add: applyUpdates_Nil)
  next
    case True
    let ?d = "d @ [cur ! i]"
    let ?ls = "ls[j := (ls ! j)\<lparr>displayedContent := Str ?d\<rparr>]"
    have jl: "j < length ls" using "1.prems" by (rule findIndex_Some_less)
    have f: "findIndex (\<lambda>l. line_id l = t) ?ls = Some j"
      using "1.prems" by (simp add: findIndex_displayed)
    have IH: "fst (typeChars_str t cur ?ls ?d (i + 1)) =
           (if i + 1 < length cur then ?ls[j := (?ls ! j)\<lparr>displayedContent := Str (?d @ drop (i + 1) cur)\<rparr>]
            else ?ls) \<and>
         applyUpdates (snd (typeChars_str t cur ?ls ?d (i + 1))) p =
           (if i + 1 < length cur then ?ls[j := (?ls ! j)\<lparr>displayedContent := Str (?d @ drop (i + 1) cur)\<rparr>]
            else p)" for p
      using "1.IH"(2)[OF True "1.prems" f] by simp
    have dr: "drop i cur = cur ! i # drop (Suc i) cur"
      using True by (simp add: Cons_nth_drop_Suc)
    have ov: "?ls[j := (?ls ! j)\<lparr>displayedContent := X\<rparr>] = ls[j := (ls ! j)\<lparr>displayedContent := X\<rparr>]" for X
      using jl by simp
    have unf: "typeChars_str t cur ls d i =
        (fst (typeChars_str t cur ?ls ?d (i + 1)),
         SetLines ?ls # snd (typeChars_str t cur ?ls ?d (i + 1)))"
      using True "1.prems" by (subst typeChars_str.simps) (simp add: split_beta)
    show ?thesis
      unfolding unf using True IH[of ?ls] IH[of prev] ov dr
      by (auto simp: applyUpdates_Cons)
  qed
qed

lemma markComplete_str_found:
  assumes "findIndex (\<lambda>l. line_id l = t) ls = Some j"
  shows "markComplete_str t ls =
     (ls[j := (ls ! j)\<lparr>isComplete := True\<rparr>], [SetLines (ls[j := (ls ! j)\<lparr>isComplete := True\<rparr>])])"
  using assms by (simp add: markComplete_str_def)

text \<open>Typing one piece into the line at index \<open>j\<close> and completing it.\<close>

lemma piece_done:
  assumes f: "findIndex (\<lambda>l. line_id l = t) ls = Some j"
  shows "\<exists>typed sets completed sets'.
           typeChars_str t cur ls [] 0 = (typed, sets) \<and>
           markComplete_str t typed = (completed, sets') \<and>
           completed = ls[j := (ls ! j)\<lparr>displayedContent :=
                            (if cur = [] then displayedContent (ls ! j) else Str cur),
                          isComplete := True\<rparr>] \<and>
           (\<forall>prev. applyUpdates (sets @ sets') prev = completed)"
proof -
  obtain typed sets where tc: "typeChars_str t cur ls [] 0 = (typed, sets)"
    by (cases "typeChars_str t cur ls [] 0")
  have jl: "j < length ls" using f by (rule findIndex_Some_less)
  have ty: "typed = (if cur = [] then ls else ls[j := (ls ! j)\<lparr>displayedContent := Str cur\<rparr>])"
    using typeChars_str_found[OF f, of cur "[]" 0] tc by auto
  have ft: "findIndex (\<lambda>l. line_id l = t) typed = Some j"
    unfolding ty using f by (simp add: findIndex_displayed)
  note mc = markComplete_str_found[OF ft]
  have c: "typed[j := (typed ! j)\<lparr>isComplete := True\<rparr>] =
       ls[j := (ls ! j)\<lparr>displayedContent :=
                            (if cur = [] then displayedContent (ls ! j) else Str cur),
                          isComplete := True\<rparr>]"
    unfolding ty using jl by simp
  show ?thesis
    using tc mc c by (simp add: applyUpdates_append applyUpdates_Cons applyUpdates_Nil)
qed


text \<open>The ids of the pushed lines differ from one another.\<close>

lemma numberToString_nonempty: "numberToString n \<noteq> []"
  by (subst numberToString.simps) simp

lemma digit_inj:
  assumes "a < 10" "b < 10" "(0x30 :: code_unit) + of_nat a = 0x30 + of_nat b"
  shows "a = b"
proof -
  have "(of_nat a :: code_unit) = of_nat b" using assms(3) by simp
  then have "unat (of_nat a :: code_unit) = unat (of_nat b :: code_unit)" by simp
  then show ?thesis using assms(1,2) by (simp add: unat_of_nat)
qed

lemma numberToString_inj: "numberToString n = numberToString m \<Longrightarrow> n = m"
proof (induction n arbitrary: m rule: numberToString.induct)
  case (1 n)
  show ?case
  proof (cases "n < 10")
    case True
    show ?thesis
    proof (cases "m < 10")
      case m: True
      have "[0x30 + of_nat n] = [(0x30 :: code_unit) + of_nat m]"
        using "1.prems" True m by (subst (asm) (1 2) numberToString.simps) simp
      then show ?thesis using digit_inj[OF True m] by simp
    next
      case m: False
      have "numberToString n = [0x30 + of_nat n]" using True by (subst numberToString.simps) simp
      moreover have "numberToString m = numberToString (m div 10) @ [0x30 + of_nat (m mod 10)]"
        using m by (subst numberToString.simps) simp
      ultimately show ?thesis
        using "1.prems" numberToString_nonempty[of "m div 10"] by (cases "numberToString (m div 10)") auto
    qed
  next
    case False
    have n: "numberToString n = numberToString (n div 10) @ [0x30 + of_nat (n mod 10)]"
      using False by (subst numberToString.simps) simp
    show ?thesis
    proof (cases "m < 10")
      case m: True
      have "numberToString m = [0x30 + of_nat m]" using m by (subst numberToString.simps) simp
      then show ?thesis
        using "1.prems" n numberToString_nonempty[of "n div 10"] by (cases "numberToString (n div 10)") auto
    next
      case m: False
      have "numberToString m = numberToString (m div 10) @ [0x30 + of_nat (m mod 10)]"
        using m by (subst numberToString.simps) simp
      then have e: "numberToString (n div 10) = numberToString (m div 10)"
          "(0x30 :: code_unit) + of_nat (n mod 10) = 0x30 + of_nat (m mod 10)"
        using "1.prems" n by auto
      have "n div 10 = m div 10" using "1.IH"[OF False e(1)] .
      moreover have "n mod 10 = m mod 10" using digit_inj[OF _ _ e(2)] by simp
      ultimately show ?thesis by (metis div_mult_mod_eq)
    qed
  qed
qed

lemma findIndex_fresh:
  "t \<notin> line_id ` set ls \<Longrightarrow> findIndex (\<lambda>l. line_id l = t) ls = None"
  unfolding findIndex_None_iff by auto

lemma pieceLine_id [simp]:
  "line_id (pieceLine lineId ty pieces n) = lineId @ js ''-'' @ numberToString n"
  by (simp add: pieceLine_def)

text \<open>The outer loop from the piece \<open>n\<close> on, the lines of the pieces before it being
  pushed and completed.\<close>

lemma renderLines_str_rest:
  assumes fresh: "\<forall>m. 1 \<le> m \<and> m < length pieces \<longrightarrow>
                    lineId @ js ''-'' @ numberToString m \<notin> line_id ` set base"
    and "1 \<le> n"
  shows "applyUpdates (renderLines_str lineId ty pieces n
            (base @ map (pieceLine lineId ty pieces) [1..<n])) prev =
         (if n < length pieces then base @ map (pieceLine lineId ty pieces) [1..<length pieces]
          else prev)"
  using assms(2)
proof (induction "length pieces - n" arbitrary: n prev)
  case 0
  then have "\<not> n < length pieces" by simp
  then show ?case by (subst renderLines_str.simps) (simp add: applyUpdates_Nil)
next
  case (Suc k)
  then have lt: "n < length pieces" by simp
  let ?cur = "base @ map (pieceLine lineId ty pieces) [1..<n]"
  let ?t = "lineId @ js ''-'' @ numberToString n"
  let ?new = "\<lparr>line_id = ?t, line_type = ty, line_content = Str (pieces ! n),
               displayedContent = Str [], isComplete = False\<rparr>"
  let ?pushed = "?cur @ [?new]"
  have n0: "n \<noteq> 0" "0 < n" using Suc.prems by simp_all
  have nb: "?t \<notin> line_id ` set base" using fresh lt Suc.prems by simp
  have "?t \<notin> line_id ` set ?cur"
  proof
    assume "?t \<in> line_id ` set ?cur"
    then obtain m where "m < n" "numberToString n = numberToString m"
      using nb by auto
    then show False using numberToString_inj[of n m] by simp
  qed
  then have "findIndex (\<lambda>l. line_id l = ?t) ?cur = None"
    by (rule findIndex_fresh)
  then have f: "findIndex (\<lambda>l. line_id l = ?t) ?pushed = Some (length ?cur)"
    by (rule findIndex_append_fresh) simp
  obtain typed sets completed sets' where
    p: "typeChars_str ?t (pieces ! n) ?pushed [] 0 = (typed, sets)"
       "markComplete_str ?t typed = (completed, sets')"
       "completed = ?pushed[length ?cur := (?pushed ! length ?cur)\<lparr>displayedContent :=
                            (if pieces ! n = [] then displayedContent (?pushed ! length ?cur)
                             else Str (pieces ! n)),
                          isComplete := True\<rparr>]"
       "\<And>prev. applyUpdates (sets @ sets') prev = completed"
    using piece_done[OF f, of "pieces ! n"] by blast
  have pl: "?pushed ! length ?cur = ?new" by (rule nth_append_length)
  have upd: "?pushed[length ?cur := z] = ?cur @ [z]" for z by (rule list_update_length)
  have "completed = ?cur @ [pieceLine lineId ty pieces n]"
    unfolding p(3) pl upd by (simp add: pieceLine_def)
  then have c: "completed = base @ map (pieceLine lineId ty pieces) [1..<Suc n]"
    using Suc.prems by simp
  have unf: "renderLines_str lineId ty pieces n ?cur =
      [SetLines ?pushed] @ sets @ sets' @ renderLines_str lineId ty pieces (n + 1) completed"
    using lt n0 p(1,2) by (subst renderLines_str.simps) (simp add: Let_def)
  have k: "k = length pieces - (n + 1)" using Suc(2) by simp
  have IH: "applyUpdates (renderLines_str lineId ty pieces (n + 1) completed) completed =
         (if n + 1 < length pieces then base @ map (pieceLine lineId ty pieces) [1..<length pieces]
          else completed)"
    unfolding c using Suc(1)[OF k, of completed] by (simp add: c)
  have a: "applyUpdates (sets @ sets' @ renderLines_str lineId ty pieces (n + 1) completed) x =
      applyUpdates (renderLines_str lineId ty pieces (n + 1) completed) completed" for x
    using p(4)[of x] applyUpdates_append[of "sets @ sets'"] by simp
  have fin: "applyUpdates (renderLines_str lineId ty pieces (n + 1) completed) completed =
      base @ map (pieceLine lineId ty pieces) [1..<length pieces]"
  proof (cases "n + 1 < length pieces")
    case True
    then show ?thesis using IH by simp
  next
    case False
    then have "length pieces = Suc n" using lt by simp
    then show ?thesis using IH False c by simp
  qed
  have "applyUpdates (renderLines_str lineId ty pieces n ?cur) prev =
      applyUpdates (sets @ sets' @ renderLines_str lineId ty pieces (n + 1) completed) ?pushed"
    unfolding unf by (simp add: applyUpdates_Cons)
  then show ?case using a[of ?pushed] fin lt by simp
qed

text \<open>The whole run, when the transcript read has the line and none of the ids to be
  pushed: it ends with the first piece displayed in the line, and one completed line of the
  same type per further piece, in order.\<close>

lemma renderOutputLine_str_found:
  assumes f: "findIndex (\<lambda>l. line_id l = lineId) ls = Some i"
    and fresh: "\<forall>m. 1 \<le> m \<and> m < length (splitOn 0x0A s) \<longrightarrow>
                    lineId @ js ''-'' @ numberToString m \<notin> line_id ` set ls"
  shows "applyUpdates (renderOutputLine_str ls lineId (Str s) ty) prev =
     ls[i := (ls ! i)\<lparr>displayedContent :=
                (if hd (splitOn 0x0A s) = [] then displayedContent (ls ! i)
                 else Str (hd (splitOn 0x0A s))),
              isComplete := True\<rparr>]
     @ map (pieceLine lineId ty (splitOn 0x0A s)) [1..<length (splitOn 0x0A s)]"
proof -
  let ?pieces = "splitOn 0x0A s"
  have ne: "?pieces \<noteq> []" by (rule splitOn_nonempty)
  then have l0: "0 < length ?pieces" by simp
  have h: "?pieces ! 0 = hd ?pieces" using ne by (simp add: hd_conv_nth)
  obtain typed sets completed sets' where
    p: "typeChars_str lineId (?pieces ! 0) ls [] 0 = (typed, sets)"
       "markComplete_str lineId typed = (completed, sets')"
       "completed = ls[i := (ls ! i)\<lparr>displayedContent :=
                            (if ?pieces ! 0 = [] then displayedContent (ls ! i)
                             else Str (?pieces ! 0)),
                          isComplete := True\<rparr>]"
       "\<And>prev. applyUpdates (sets @ sets') prev = completed"
    using piece_done[OF f, of "?pieces ! 0"] by blast
  have unf: "renderLines_str lineId ty ?pieces 0 ls =
      sets @ sets' @ renderLines_str lineId ty ?pieces 1 completed"
    using l0 p(1,2) by (subst renderLines_str.simps) (simp add: Let_def)
  have ids: "line_id ` set completed = line_id ` set ls"
  proof -
    have "map line_id completed = map line_id ls"
      unfolding p(3) by (simp add: map_update map_update_nth)
    then have "set (map line_id completed) = set (map line_id ls)" by simp
    then show ?thesis by simp
  qed
  have fresh': "\<forall>m. 1 \<le> m \<and> m < length ?pieces \<longrightarrow>
                    lineId @ js ''-'' @ numberToString m \<notin> line_id ` set completed"
    unfolding ids using fresh .
  have r: "applyUpdates (renderLines_str lineId ty ?pieces 1 completed) completed =
         completed @ map (pieceLine lineId ty ?pieces) [1..<length ?pieces]"
    using renderLines_str_rest[OF fresh', of 1 ty completed] l0
    by (cases "1 < length ?pieces") auto
  have "applyUpdates (renderLines_str lineId ty ?pieces 0 ls) prev =
        applyUpdates (renderLines_str lineId ty ?pieces 1 completed) completed"
    unfolding unf using p(4)[of prev] applyUpdates_append[of "sets @ sets'"] by simp
  then show ?thesis
    using f r unfolding p(3) h by (simp add: renderOutputLine_str_def)
qed

text \<open>The updates of such a run, one by one: for
  the string \<open>a\<close>, line break, \<open>b\<close> it types \<open>a\<close> into the line and completes it, then
  pushes the line \<open>out-1\<close> of the same type, types \<open>b\<close> into it and completes it.\<close>

lemma renderOutputLine_str_splits:
  "renderOutputLine_str
     [\<lparr>line_id = js ''out'', line_type = OutputLine, line_content = Str (js ''a\<newline>b''),
       displayedContent = Str [], isComplete = False\<rparr>]
     (js ''out'') (Str (js ''a\<newline>b'')) OutputLine =
   [SetLines [\<lparr>line_id = js ''out'', line_type = OutputLine, line_content = Str (js ''a\<newline>b''),
       displayedContent = Str (js ''a''), isComplete = False\<rparr>],
    SetLines [\<lparr>line_id = js ''out'', line_type = OutputLine, line_content = Str (js ''a\<newline>b''),
       displayedContent = Str (js ''a''), isComplete = True\<rparr>],
    SetLines [\<lparr>line_id = js ''out'', line_type = OutputLine, line_content = Str (js ''a\<newline>b''),
       displayedContent = Str (js ''a''), isComplete = True\<rparr>,
      \<lparr>line_id = js ''out-1'', line_type = OutputLine, line_content = Str (js ''b''),
       displayedContent = Str [], isComplete = False\<rparr>],
    SetLines [\<lparr>line_id = js ''out'', line_type = OutputLine, line_content = Str (js ''a\<newline>b''),
       displayedContent = Str (js ''a''), isComplete = True\<rparr>,
      \<lparr>line_id = js ''out-1'', line_type = OutputLine, line_content = Str (js ''b''),
       displayedContent = Str (js ''b''), isComplete = False\<rparr>],
    SetLines [\<lparr>line_id = js ''out'', line_type = OutputLine, line_content = Str (js ''a\<newline>b''),
       displayedContent = Str (js ''a''), isComplete = True\<rparr>,
      \<lparr>line_id = js ''out-1'', line_type = OutputLine, line_content = Str (js ''b''),
       displayedContent = Str (js ''b''), isComplete = True\<rparr>]]"
  by (simp add: renderOutputLine_str_def js_def renderLines_str.simps[of _ _ _ 0]
        renderLines_str.simps[of _ _ _ "Suc 0"] renderLines_str.simps[of _ _ _ "Suc (Suc 0)"]
        typeChars_str.simps[of _ _ _ _ 0] typeChars_str.simps[of _ _ _ _ "Suc 0"]
        markComplete_str_def numberToString.simps Let_def)

lemma help_result_str:
  "getCommandOutput_str demoRuntime 0 (js ''help'') =
     (Inr (Output \<lparr>content = Str helpText_str, error = False\<rparr>), 0)"
proof -
  have p: "parseInput demoRuntime (js ''help'') = (js ''help'', [])"
    by (simp add: parseInput_def js_def trim_def isWhiteSpace_def demoRuntime_def
          asciiLowerCase_def asciiLowerUnit_def)
  have n: "js ''help'' \<noteq> js ''clear''" "js ''help'' \<noteq> js ''reload''"
    by (simp_all add: js_def)
  have c: "commands_str (js ''help'') = Some (Callable (stringHandler helpText_str))"
    by (simp add: commands_str_def)
  show ?thesis
    by (simp add: getCommandOutput_str_def p n c callProperty_def stringHandler_def)
qed

lemma helpText_str_breaks: "length (filter (\<lambda>c. c = 0x0A) helpText_str) = 20"
  by (simp add: helpText_str_def js_def)

section \<open>The incremental renderer: claims\<close>



text \<open>C3 (as amended). The renderer advances by UTF-16 code unit: the text displayed at
  the \<open>k\<close>-th tick is the first \<open>k\<close> code units of the text of the content. When that text
  consists of whole code points, the text displayed at a tick consists of whole code points
  exactly when the code unit typed at that tick is not a high surrogate; a glyph stored as a
  surrogate pair is thus split for one tick.\<close>

theorem reveal_by_code_unit:
  assumes "c \<noteq> Undefined" and "wholeCodePoints (contentText c)"
  shows "map contentText (ticks (renderOutputLine l c ty)) =
           map (\<lambda>k. take k (contentText c)) [1..<Suc (length (contentText c))] \<and>
         (\<forall>k < length (contentText c).
            wholeCodePoints (contentText (ticks (renderOutputLine l c ty) ! k)) \<longleftrightarrow>
            \<not> isHighSurrogate (contentText c ! k))"
proof -
  let ?t = "contentText c"
  have texts: "map contentText (ticks (renderOutputLine l c ty)) =
           map (\<lambda>k. take k ?t) [Suc 0..<Suc (length ?t)]"
  proof (cases c)
    case (Str s)
    have "renderOutputLine l c ty =
        map (SetDisplayed l) (map (\<lambda>j. Str (take j s)) [Suc 0..<Suc (length s)]) @ [SetComplete l]"
      unfolding Str renderOutputLine.simps by (rule renderString_initial)
    then show ?thesis
      unfolding Str by (simp only: ticks_closed) (simp add: comp_def del: upt_Suc)
  next
    case (Segs segs)
    have "renderOutputLine l c ty = map (SetDisplayed l) (map Segs (allTicks [] segs)) @ [SetComplete l]"
      unfolding Segs renderOutputLine.simps by (rule renderSegments_initial')
    moreover have "formatToString [] = []" by (simp add: formatToString_def)
    ultimately show ?thesis
      unfolding Segs using allTicks_text[of "[]" segs]
      by (simp only: ticks_closed) (simp add: comp_def del: upt_Suc)
  next
    case Undefined
    then show ?thesis using assms by simp
  qed
  have "wholeCodePoints (contentText (ticks (renderOutputLine l c ty) ! k)) \<longleftrightarrow>
            \<not> isHighSurrogate (?t ! k)" if k: "k < length ?t" for k
  proof -
    have len: "length (ticks (renderOutputLine l c ty)) = length ?t"
      using arg_cong[OF texts, of length] by (simp del: upt_Suc)
    have "contentText (ticks (renderOutputLine l c ty) ! k)
          = map contentText (ticks (renderOutputLine l c ty)) ! k"
      using k len by simp
    also have "\<dots> = take (Suc k) ?t"
      unfolding texts using k by (simp del: upt_Suc)
    finally show ?thesis
      using wholeCodePoints_take[OF assms(2) k] by simp
  qed
  then show ?thesis using texts by simp
qed

text \<open>An instance: one glyph outside the Basic Multilingual Plane.\<close>

theorem reveal_by_code_unit_witness:
  "Str [0xD83D, 0xDD17] \<noteq> Undefined \<and> wholeCodePoints (contentText (Str [0xD83D, 0xDD17])) \<and>
   map contentText (ticks (renderOutputLine (js ''out'') (Str [0xD83D, 0xDD17]) OutputLine)) =
     [[0xD83D], [0xD83D, 0xDD17]] \<and>
   \<not> wholeCodePoints (contentText
        (ticks (renderOutputLine (js ''out'') (Str [0xD83D, 0xDD17]) OutputLine) ! 0)) \<and>
   wholeCodePoints (contentText
        (ticks (renderOutputLine (js ''out'') (Str [0xD83D, 0xDD17]) OutputLine) ! 1))"
proof -
  have h1: "Str [0xD83D, 0xDD17] \<noteq> Undefined" by simp
  have h2: "wholeCodePoints (contentText (Str [0xD83D, 0xDD17]))"
    by (simp add: isHighSurrogate_def isLowSurrogate_def)
  note r = reveal_by_code_unit[OF h1 h2, of "js ''out''" OutputLine]
  from r have texts:
    "map contentText (ticks (renderOutputLine (js ''out'') (Str [0xD83D, 0xDD17]) OutputLine)) =
       [[0xD83D], [0xD83D, 0xDD17]]"
    by (simp add: upt_rec)
  from r have k0: "\<not> wholeCodePoints (contentText
        (ticks (renderOutputLine (js ''out'') (Str [0xD83D, 0xDD17]) OutputLine) ! 0))"
    by (simp add: isHighSurrogate_def)
  from r have "wholeCodePoints (contentText
        (ticks (renderOutputLine (js ''out'') (Str [0xD83D, 0xDD17]) OutputLine) ! Suc 0))"
    by (simp add: isHighSurrogate_def)
  then show ?thesis using h1 h2 texts k0 by simp
qed

text \<open>C3 as stated fails on the link icon that \<open>createListItem\<close> emits: the fifth tick
  displays four spaces and a lone high surrogate.\<close>

theorem surrogate_pair_split_counterexample:
  "wholeCodePoints (contentText (Segs [text_muted linkIcon False])) \<and>
   \<not> wholeCodePoints (contentText
        (ticks (renderOutputLine (js ''out'') (Segs [text_muted linkIcon False]) OutputLine) ! 4))"
  by (simp add: renderSegments_initial' ticks_closed segTicks_def js_def text_muted_def mkText_def
        linkIcon_def formatToString_def isHighSurrogate_def isLowSurrogate_def)

text \<open>C5. In the string variant, where command results are plain strings with line
  breaks, \<open>renderOutputLine\<close> is written to split the content and to push one line per
  further piece, of the same type, each after its predecessor is completed (lemmas
  \<open>renderOutputLine_str_found\<close> and \<open>renderOutputLine_str_splits\<close> above). But
  \<open>handleCommand\<close> calls it with the \<open>lines\<close> of the render that preceded the submit.
  For every accepted submit whose result is not a sentinel, when the id of the new output
  line is not already in that transcript, the renderer finds no line and returns at once:
  the content is not split, no line is created, and the transcript ends with the command
  line and the output line, which holds the whole content, displays nothing and is never
  completed.\<close>

theorem string_result_never_split:
  assumes "trim command \<noteq> []"
    and "getCommandOutput_str rt k command = (Inr r, k')"
    and "resultContent r \<noteq> Str (js ''CLEAR'')" and "resultContent r \<noteq> Str (js ''RELOAD'')"
    and "js ''output-'' @ numberToString (now 1) \<notin> line_id ` set (lines s)"
  shows "renderOutputLine_str (lines s) (js ''output-'' @ numberToString (now 1))
           (resultContent r) (outputTypeOf r) = [] \<and>
         lines (fst (handleCommand_str rt k now s command)) =
           lines s @
           [\<lparr>line_id = numberToString (now 0), line_type = CommandLine,
             line_content = Str command, displayedContent = Str command, isComplete = True\<rparr>,
            \<lparr>line_id = js ''output-'' @ numberToString (now 1), line_type = outputTypeOf r,
             line_content = resultContent r, displayedContent = Str [], isComplete = False\<rparr>]"
  using assms
  by (simp add: handleCommand_str_def Let_def renderOutputLine_str_stale applyUpdates_def)

text \<open>An instance: \<open>help\<close> submitted to the initial session, with the clock at 1000. The
  content has 20 line breaks; the transcript gets two lines.\<close>

theorem string_result_never_split_witness:
  "trim (js ''help'') \<noteq> [] \<and>
   getCommandOutput_str demoRuntime 0 (js ''help'') =
     (Inr (Output \<lparr>content = Str helpText_str, error = False\<rparr>), 0) \<and>
   Str helpText_str \<noteq> Str (js ''CLEAR'') \<and> Str helpText_str \<noteq> Str (js ''RELOAD'') \<and>
   length (filter (\<lambda>c. c = 0x0A) helpText_str) = 20 \<and>
   js ''output-1001'' \<notin> line_id ` set (lines initialState) \<and>
   renderOutputLine_str (lines initialState) (js ''output-1001'') (Str helpText_str) OutputLine
     = [] \<and>
   lines (fst (handleCommand_str demoRuntime 0 (\<lambda>i. 1000 + i) initialState (js ''help''))) =
     welcomeLines @
     [\<lparr>line_id = js ''1000'', line_type = CommandLine,
       line_content = Str (js ''help''), displayedContent = Str (js ''help''), isComplete = True\<rparr>,
      \<lparr>line_id = js ''output-1001'', line_type = OutputLine,
       line_content = Str helpText_str, displayedContent = Str [], isComplete = False\<rparr>]"
proof -
  let ?r = "Output \<lparr>content = Str helpText_str, error = False\<rparr>"
  have h1: "trim (js ''help'') \<noteq> []" by (simp add: trim_def js_def isWhiteSpace_def)
  have n: "helpText_str \<noteq> js ''CLEAR''" "helpText_str \<noteq> js ''RELOAD''"
  proof -
    have "length (filter (\<lambda>c. c = 0x0A) (js ''CLEAR'')) = 0"
        "length (filter (\<lambda>c. c = 0x0A) (js ''RELOAD'')) = 0"
      by (simp_all add: js_def)
    then show "helpText_str \<noteq> js ''CLEAR''" "helpText_str \<noteq> js ''RELOAD''"
      using helpText_str_breaks by auto
  qed
  have h3: "resultContent ?r \<noteq> Str (js ''CLEAR'')" and h4: "resultContent ?r \<noteq> Str (js ''RELOAD'')"
    using n by simp_all
  have t0: "numberToString (1000 + 0) = js ''1000''" and t1: "numberToString (1000 + 1) = js ''1001''"
    by (simp_all add: numberToString.simps js_def)
  have h5: "js ''output-'' @ numberToString (1000 + 1) \<notin> line_id ` set (lines initialState)"
    unfolding t1 by (simp add: initialState_def welcomeLines_def js_def)
  have e: "js ''output-'' @ js ''1001'' = js ''output-1001''" by (simp add: js_def)
  note r = string_result_never_split[OF h1 help_result_str h3 h4,
      where now = "\<lambda>i. 1000 + i" and s = initialState, OF h5]
  show ?thesis
    using h1 help_result_str n helpText_str_breaks h5 r
    unfolding t0 t1 e
    by (simp add: outputTypeOf_def initialState_def)
qed

section \<open>The dispatcher and the session: claims\<close>

text \<open>C2 (as amended). \<open>getCommandOutput\<close> trims the input, lowercases the whole of it and
  splits it at every space character: joining the command token and the argument tokens
  with single spaces gives back the trimmed, lowercased input, and no token contains a
  space. The handler registered for the command token is called with exactly these
  argument tokens, so arguments reach it lowercased, not as typed.\<close>

theorem arguments_lowercased:
  assumes "parseInput rt raw = (command, args)"
  shows "join (js '' '') (command # args) = toLowerCase rt (trim raw) \<and>
         (\<forall>a \<in> set (command # args). 0x20 \<notin> set a) \<and>
         (command \<noteq> js ''clear'' \<longrightarrow> command \<noteq> js ''reload'' \<longrightarrow>
          reg command = Some (Callable h) \<longrightarrow>
            dispatch reg rt k raw =
              (case h rt k args of
                 (Inl e, k') \<Rightarrow> (Inr (Output (errorOutput e)), k')
               | (Inr r, k') \<Rightarrow> (Inr r, k')))"
proof -
  note sp = parseInput_pieces[OF assms]
  have a: "join (js '' '') (command # args) = toLowerCase rt (trim raw)"
    using join_splitOn[of "0x20" "toLowerCase rt (trim raw)"] unfolding sp js_space .
  have b: "\<forall>a \<in> set (command # args). 0x20 \<notin> set a"
    using splitOn_pieces[of _ "0x20" "toLowerCase rt (trim raw)"] unfolding sp by blast
  have c: "dispatch reg rt k raw =
              (case h rt k args of
                 (Inl e, k') \<Rightarrow> (Inr (Output (errorOutput e)), k')
               | (Inr r, k') \<Rightarrow> (Inr r, k'))"
    if "command \<noteq> js ''clear''" "command \<noteq> js ''reload''" "reg command = Some (Callable h)"
    using dispatch_handler[where reg = reg and p = "Callable h", OF assms that]
    by (simp add: callProperty_def)
  show ?thesis using a b c by blast
qed

text \<open>An instance: \<open>sudo Foo\<close> reaches the \<open>sudo\<close> handler with the argument \<open>foo\<close>.\<close>

theorem arguments_lowercased_witness:
  "parseInput demoRuntime (js ''sudo Foo'') = (js ''sudo'', [js ''foo'']) \<and>
   join (js '' '') [js ''sudo'', js ''foo''] = toLowerCase demoRuntime (trim (js ''sudo Foo'')) \<and>
   0x20 \<notin> set (js ''sudo'') \<and> 0x20 \<notin> set (js ''foo'') \<and>
   js ''sudo'' \<noteq> js ''clear'' \<and> js ''sudo'' \<noteq> js ''reload'' \<and>
   commands (js ''sudo'') = Some (Callable cmd_sudo) \<and>
   dispatch commands demoRuntime 0 (js ''sudo Foo'') =
     (Inr (Output \<lparr>content = Segs (sudoNotFoundOutput [js ''foo'']), error = False\<rparr>), 0)"
proof -
  have h1: "parseInput demoRuntime (js ''sudo Foo'') = (js ''sudo'', [js ''foo''])" by (rule parse_sudo_Foo)
  have h2: "js ''sudo'' \<noteq> js ''clear''" "js ''sudo'' \<noteq> js ''reload''" by (simp_all add: js_def)
  have h3: "commands (js ''sudo'') = Some (Callable cmd_sudo)" by (simp add: commands_def js_def)
  have nu: "\<not> isUpdateCommand demoRuntime [js ''foo'']"
    by (simp add: isUpdateCommand_def js_def demoRuntime_def asciiLowerCase_def asciiLowerUnit_def)
  note r = arguments_lowercased[OF h1, where reg = commands and h = cmd_sudo and k = 0]
  have "dispatch commands demoRuntime 0 (js ''sudo Foo'') =
     (Inr (Output \<lparr>content = Segs (sudoNotFoundOutput [js ''foo'']), error = False\<rparr>), 0)"
    using r h2 h3 nu by (simp add: cmd_sudo_def)
  then show ?thesis using r h1 h2 h3 by simp
qed

text \<open>C2 as stated fails: the argument typed \<open>Foo\<close> is passed, and echoed, as \<open>foo\<close>.\<close>

theorem arguments_case_counterexample:
  "snd (parseInput demoRuntime (js ''sudo Foo'')) = [js ''foo''] \<and> [js ''foo''] \<noteq> [js ''Foo''] \<and>
   fst (getCommandOutput demoRuntime 0 (js ''sudo Foo'')) =
     Inr (Output \<lparr>content = Segs (sudoNotFoundOutput [js ''foo'']), error = False\<rparr>)"
proof -
  have nu: "\<not> isUpdateCommand demoRuntime [js ''foo'']"
    by (simp add: isUpdateCommand_def js_def demoRuntime_def asciiLowerCase_def asciiLowerUnit_def)
  have c: "commands (js ''sudo'') = Some (Callable cmd_sudo)" by (simp add: commands_def js_def)
  have "js ''sudo'' \<noteq> js ''clear''" "js ''sudo'' \<noteq> js ''reload''" by (simp_all add: js_def)
  from dispatch_handler[where reg = commands and p = "Callable cmd_sudo", OF parse_sudo_Foo this c]
  have "getCommandOutput demoRuntime 0 (js ''sudo Foo'') =
     (Inr (Output \<lparr>content = Segs (sudoNotFoundOutput [js ''foo'']), error = False\<rparr>), 0)"
    using nu by (simp add: getCommandOutput_def callProperty_def cmd_sudo_def)
  moreover have "[js ''foo''] \<noteq> [js ''Foo'']" by (simp add: js_def)
  ultimately show ?thesis by (simp add: parse_sudo_Foo)
qed

text \<open>C4 (as amended). Resolution is deterministic except where \<open>sudo\<close> simulates an
  update. The \<open>sudo\<close> handler simulates an update when it has no argument, or when its
  arguments, joined with single spaces and lowercased, contain \<open>update\<close>, \<open>upgrade\<close> or
  \<open>install\<close> as a substring (so also for the argument \<open>reinstallation\<close>). For every other
  input, whatever its command token, the result does not depend on the random draws of the
  runtime nor on how many were made before, and resolving makes no draw. For an input on
  which \<open>sudo\<close> simulates an update, two resolutions give different contents whenever their
  first draws, which fix the number of packages, differ.\<close>

theorem resolution_deterministic_without_random:
  assumes "parseInput rt raw = (command, args)"
  shows "(\<not> (command = js ''sudo'' \<and> isUpdateCommand rt args) \<longrightarrow>
            fst (getCommandOutput (rt\<lparr>randomFloor := rf\<rparr>) k raw) =
            fst (getCommandOutput (rt\<lparr>randomFloor := rf'\<rparr>) k' raw) \<and>
            snd (getCommandOutput rt k raw) = k) \<and>
         (command = js ''sudo'' \<and> isUpdateCommand rt args \<and>
          randomFloor rt k 8 \<noteq> randomFloor rt k' 8 \<longrightarrow>
            fst (getCommandOutput rt k raw) \<noteq> fst (getCommandOutput rt k' raw))"
proof -
  have p: "parseInput (rt\<lparr>randomFloor := r\<rparr>) raw = (command, args)" for r
    using assms(1) by simp
  note unfold = getCommandOutput_cases[OF assms(1)] getCommandOutput_cases[OF p]
  have det: "fst (getCommandOutput (rt\<lparr>randomFloor := rf\<rparr>) k raw) =
            fst (getCommandOutput (rt\<lparr>randomFloor := rf'\<rparr>) k' raw) \<and>
            snd (getCommandOutput rt k raw) = k"
    if static: "\<not> (command = js ''sudo'' \<and> isUpdateCommand rt args)"
  proof (cases "commands command")
    case None
    then show ?thesis unfolding unfold by simp
  next
    case (Some p)
    have st: "fst (callProperty p (rt\<lparr>randomFloor := rf\<rparr>) k args) =
         fst (callProperty p (rt\<lparr>randomFloor := rf'\<rparr>) k' args) \<and>
         snd (callProperty p rt k args) = k"
    proof (cases "command = js ''sudo''")
      case True
      then have "p = Callable cmd_sudo" using Some commands_sudo by simp
      moreover have "\<not> isUpdateCommand rt args" using static True by simp
      ultimately show ?thesis using sudo_static by blast
    next
      case False
      then show ?thesis by (rule static_property[OF Some])
    qed
    show ?thesis
      unfolding unfold Some
      using st
      by (cases "callProperty p (rt\<lparr>randomFloor := rf\<rparr>) k args";
          cases "callProperty p (rt\<lparr>randomFloor := rf'\<rparr>) k' args";
          cases "callProperty p rt k args")
         (auto split: sum.splits)
  qed
  have rnd: "fst (getCommandOutput rt k raw) \<noteq> fst (getCommandOutput rt k' raw)"
    if su: "command = js ''sudo''" "isUpdateCommand rt args"
      and d: "randomFloor rt k 8 \<noteq> randomFloor rt k' 8"
  proof -
    have ps: "parseInput rt raw = (js ''sudo'', args)" using assms su(1) by simp
    obtain c1 where c1: "fst (getCommandOutput rt k raw) =
          Inr (Output \<lparr>content = Segs c1, error = False\<rparr>)"
        "length c1 = 6 * (randomFloor rt k 8 + 5) + 20"
      using sudo_update_length[OF ps su(2), of k] by blast
    obtain c2 where c2: "fst (getCommandOutput rt k' raw) =
          Inr (Output \<lparr>content = Segs c2, error = False\<rparr>)"
        "length c2 = 6 * (randomFloor rt k' 8 + 5) + 20"
      using sudo_update_length[OF ps su(2), of k'] by blast
    have "length c1 \<noteq> length c2" using c1(2) c2(2) d by simp
    then have "c1 \<noteq> c2" by auto
    then show ?thesis unfolding c1(1) c2(1) by simp
  qed
  show ?thesis using det rnd by blast
qed

text \<open>Two instances: \<open>projects\<close> under two different random sources, and \<open>sudo\<close> resolved
  after 0 and after 43 draws.\<close>

theorem resolution_deterministic_without_random_witness:
  "parseInput demoRuntime (js ''projects'') = (js ''projects'', []) \<and>
   js ''projects'' \<noteq> js ''sudo'' \<and>
   fst (getCommandOutput (demoRuntime\<lparr>randomFloor := (\<lambda>k n. 0)\<rparr>) 0 (js ''projects'')) =
   fst (getCommandOutput (demoRuntime\<lparr>randomFloor := (\<lambda>k n. n - 1)\<rparr>) 43 (js ''projects'')) \<and>
   snd (getCommandOutput demoRuntime 0 (js ''projects'')) = 0 \<and>
   parseInput demoRuntime (js ''sudo'') = (js ''sudo'', []) \<and>
   isUpdateCommand demoRuntime [] \<and>
   randomFloor demoRuntime 0 8 \<noteq> randomFloor demoRuntime 43 8 \<and>
   fst (getCommandOutput demoRuntime 0 (js ''sudo'')) \<noteq>
   fst (getCommandOutput demoRuntime 43 (js ''sudo''))"
proof -
  have h2: "js ''projects'' \<noteq> js ''sudo''" by (simp add: js_def)
  have u: "isUpdateCommand demoRuntime []" by (simp add: isUpdateCommand_def)
  have d: "randomFloor demoRuntime 0 8 \<noteq> randomFloor demoRuntime 43 8"
    by (simp add: demoRuntime_def)
  show ?thesis
    using parse_projects h2 parse_sudo u d
      resolution_deterministic_without_random[OF parse_projects,
        where rf = "\<lambda>k n. 0" and k = 0 and rf' = "\<lambda>k n. n - 1" and k' = 43]
      resolution_deterministic_without_random[OF parse_sudo, where k = 0 and k' = 43]
    by simp
qed

text \<open>C4 as stated fails: resolving \<open>sudo\<close> twice in one session gives two different
  contents, the second resolution continuing the random draws where the first stopped.\<close>

theorem sudo_twice_differs_counterexample:
  "fst (getCommandOutput demoRuntime 0 (js ''sudo'')) \<noteq>
   fst (getCommandOutput demoRuntime (snd (getCommandOutput demoRuntime 0 (js ''sudo'')))
          (js ''sudo''))"
proof -
  obtain c1 where c1: "fst (getCommandOutput demoRuntime 0 (js ''sudo'')) =
        Inr (Output \<lparr>content = Segs c1, error = False\<rparr>)"
      "length c1 = 6 * (randomFloor demoRuntime 0 8 + 5) + 20"
      "snd (getCommandOutput demoRuntime 0 (js ''sudo'')) = 0 + 8 * (randomFloor demoRuntime 0 8 + 5) + 3"
    using sudo_update_size[of 0] by blast
  have k1: "snd (getCommandOutput demoRuntime 0 (js ''sudo'')) = 43"
    using c1(3) by (simp add: demoRuntime_def)
  obtain c2 where c2: "fst (getCommandOutput demoRuntime 43 (js ''sudo'')) =
        Inr (Output \<lparr>content = Segs c2, error = False\<rparr>)"
      "length c2 = 6 * (randomFloor demoRuntime 43 8 + 5) + 20"
    using sudo_update_size[of 43] by blast
  have "length c1 = 50" using c1(2) by (simp add: demoRuntime_def)
  moreover have "length c2 = 68" using c2(2) by (simp add: demoRuntime_def)
  ultimately have "c1 \<noteq> c2" by auto
  then show ?thesis unfolding k1 c1(1) c2(1) by simp
qed

text \<open>C6 (as amended). For every input whose trimmed, lowercased text is \<open>clear\<close> or
  \<open>reload\<close>, or begins with one of them followed by a space character, the dispatcher
  returns the \<open>CLEAR\<close> or \<open>RELOAD\<close> sentinel, whatever the registry holds and whatever
  follows the space, and makes no random draw. Only the space character ends the command
  token.\<close>

theorem sentinels_short_circuit:
  "(startsWithToken (js ''clear'') (toLowerCase rt (trim raw)) \<longrightarrow>
      dispatch reg rt k raw = (Inr (Output \<lparr>content = Str (js ''CLEAR''), error = False\<rparr>), k)) \<and>
   (startsWithToken (js ''reload'') (toLowerCase rt (trim raw)) \<longrightarrow>
      dispatch reg rt k raw = (Inr (Output \<lparr>content = Str (js ''RELOAD''), error = False\<rparr>), k))"
proof -
  have c: "0x20 \<notin> set (js ''clear'')" and r: "0x20 \<notin> set (js ''reload'')"
    by (simp_all add: js_def)
  have ne: "js ''reload'' \<noteq> js ''clear''" by (simp add: js_def)
  show ?thesis
    using parseInput_token[OF c, of rt raw] parseInput_token[OF r, of rt raw] ne
    by (cases "parseInput rt raw") (auto simp: dispatch_def)
qed

text \<open>An instance: both sentinels, alone and with arguments, over a registry that holds a
  non-callable value under every name.\<close>

theorem sentinels_short_circuit_witness:
  "startsWithToken (js ''clear'') (toLowerCase demoRuntime (trim (js ''  CLEAR the Screen ''))) \<and>
   dispatch (\<lambda>name. Some NotCallable) demoRuntime 7 (js ''  CLEAR the Screen '') =
     (Inr (Output \<lparr>content = Str (js ''CLEAR''), error = False\<rparr>), 7) \<and>
   startsWithToken (js ''reload'') (toLowerCase demoRuntime (trim (js ''reload''))) \<and>
   dispatch (\<lambda>name. Some NotCallable) demoRuntime 7 (js ''reload'') =
     (Inr (Output \<lparr>content = Str (js ''RELOAD''), error = False\<rparr>), 7)"
proof -
  have h1: "startsWithToken (js ''clear'')
      (toLowerCase demoRuntime (trim (js ''  CLEAR the Screen '')))"
    by (simp add: startsWithToken_def js_def trim_def isWhiteSpace_def demoRuntime_def
          asciiLowerCase_def asciiLowerUnit_def)
  have h2: "startsWithToken (js ''reload'') (toLowerCase demoRuntime (trim (js ''reload'')))"
    by (simp add: startsWithToken_def js_def trim_def isWhiteSpace_def demoRuntime_def
          asciiLowerCase_def asciiLowerUnit_def)
  show ?thesis
    using h1 h2
      sentinels_short_circuit[of demoRuntime "js ''  CLEAR the Screen ''"
        "\<lambda>name. Some NotCallable" 7]
      sentinels_short_circuit[of demoRuntime "js ''reload''" "\<lambda>name. Some NotCallable" 7]
    by blast
qed

text \<open>C6 as stated fails: in \<open>clear\<close>, a tab, \<open>x\<close> the first token is \<open>clear\<close>, but the tab
  does not end the command token and the input is reported as an unknown command.\<close>

theorem tab_separated_sentinel_counterexample:
  "isWhiteSpace 0x09 \<and>
   getCommandOutput demoRuntime 0 (js ''clear'' @ [0x09] @ js ''x'') =
     (Inr (Output (notFoundOutput (js ''clear'' @ [0x09] @ js ''x''))), 0) \<and>
   Output (notFoundOutput (js ''clear'' @ [0x09] @ js ''x'')) \<noteq>
     Output \<lparr>content = Str (js ''CLEAR''), error = False\<rparr>"
proof -
  have p: "parseInput demoRuntime (js ''clear'' @ [0x09] @ js ''x'') =
      (js ''clear'' @ [0x09] @ js ''x'', [])"
    by (simp add: parseInput_def js_def trim_def isWhiteSpace_def demoRuntime_def
          asciiLowerCase_def asciiLowerUnit_def)
  have n: "js ''clear'' @ [0x09] @ js ''x'' \<noteq> js ''clear''"
      "js ''clear'' @ [0x09] @ js ''x'' \<noteq> js ''reload''"
    by (simp_all add: js_def)
  have c: "commands (js ''clear'' @ [0x09] @ js ''x'') = None"
    by (simp add: commands_def js_def)
  have "getCommandOutput demoRuntime 0 (js ''clear'' @ [0x09] @ js ''x'') =
     (Inr (Output (notFoundOutput (js ''clear'' @ [0x09] @ js ''x''))), 0)"
    unfolding getCommandOutput_def by (rule dispatch_unknown[where reg = commands, OF p n c])
  then show ?thesis
    by (simp add: isWhiteSpace_def notFoundOutput_def)
qed

text \<open>C7. For every input and every registry the dispatcher returns; it never throws.
  When the property registered for the command token throws an \<open>Error\<close>, the result has
  the error flag set and its content carries the message of the error; when it throws
  anything else the content says \<open>Unknown error\<close>.\<close>

theorem dispatch_never_throws:
  "(\<exists>r k'. dispatch reg rt k raw = (Inr r, k')) \<and>
   (\<exists>r k'. getCommandOutput rt k raw = (Inr r, k')) \<and>
   (parseInput rt raw = (command, args) \<longrightarrow> command \<noteq> js ''clear'' \<longrightarrow> command \<noteq> js ''reload'' \<longrightarrow>
    reg command = Some p \<longrightarrow>
      (callProperty p rt k args = (Inl (ErrorObject message), k') \<longrightarrow>
         dispatch reg rt k raw =
           (Inr (Output \<lparr>content = Segs
                   [text_error (js ''Error executing command: '') False,
                    text_error message False,
                    text_default (js ''\<newline>'') False],
                 error = True\<rparr>), k')) \<and>
      (callProperty p rt k args = (Inl OtherValue, k') \<longrightarrow>
         dispatch reg rt k raw =
           (Inr (Output \<lparr>content = Segs
                   [text_error (js ''Error executing command: '') False,
                    text_error (js ''Unknown error'') False,
                    text_default (js ''\<newline>'') False],
                 error = True\<rparr>), k')))"
  using dispatch_returns[of reg rt k raw] dispatch_returns[of commands rt k raw]
  by (auto simp: dispatch_handler errorOutput_def getCommandOutput_def)

text \<open>Two instances. On the registry itself, \<open>__proto__\<close> names an inherited property
  that is not a function, and calling it throws a \<open>TypeError\<close>. On a registry whose
  handlers throw a value that is not an \<open>Error\<close>, the content says \<open>Unknown error\<close>.\<close>

theorem dispatch_never_throws_witness:
  "parseInput demoRuntime (js ''__proto__'') = (js ''__proto__'', []) \<and>
   js ''__proto__'' \<noteq> js ''clear'' \<and> js ''__proto__'' \<noteq> js ''reload'' \<and>
   commands (js ''__proto__'') = Some NotCallable \<and>
   callProperty NotCallable demoRuntime 0 [] =
     (Inl (ErrorObject (js ''commands[command] is not a function'')), 0) \<and>
   dispatch commands demoRuntime 0 (js ''__proto__'') =
     (Inr (Output \<lparr>content = Segs
             [text_error (js ''Error executing command: '') False,
              text_error (js ''commands[command] is not a function'') False,
              text_default (js ''\<newline>'') False],
           error = True\<rparr>), 0) \<and>
   callProperty (Callable (\<lambda>rt k args. (Inl OtherValue, k + 1))) demoRuntime 0 [] =
     (Inl OtherValue, 1) \<and>
   parseInput demoRuntime (js ''boom'') = (js ''boom'', []) \<and>
   js ''boom'' \<noteq> js ''clear'' \<and> js ''boom'' \<noteq> js ''reload'' \<and>
   dispatch (\<lambda>name. Some (Callable (\<lambda>rt k args. (Inl OtherValue, k + 1)))) demoRuntime 0
       (js ''boom'') =
     (Inr (Output \<lparr>content = Segs
             [text_error (js ''Error executing command: '') False,
              text_error (js ''Unknown error'') False,
              text_default (js ''\<newline>'') False],
           error = True\<rparr>), 1)"
proof -
  have h1: "parseInput demoRuntime (js ''__proto__'') = (js ''__proto__'', [])"
    by (simp add: parseInput_def js_def trim_def isWhiteSpace_def demoRuntime_def asciiLowerCase_def asciiLowerUnit_def)
  have h2: "js ''__proto__'' \<noteq> js ''clear''" "js ''__proto__'' \<noteq> js ''reload''"
    by (simp_all add: js_def)
  have h3: "commands (js ''__proto__'') = Some NotCallable"
    by (simp add: commands_def js_def)
  have h4: "callProperty NotCallable demoRuntime 0 [] =
     (Inl (ErrorObject (js ''commands[command] is not a function'')), 0)"
    by (simp add: callProperty_def demoRuntime_def)
  have g1: "parseInput demoRuntime (js ''boom'') = (js ''boom'', [])"
    by (simp add: parseInput_def js_def trim_def isWhiteSpace_def demoRuntime_def asciiLowerCase_def asciiLowerUnit_def)
  have g2: "js ''boom'' \<noteq> js ''clear''" "js ''boom'' \<noteq> js ''reload''"
    by (simp_all add: js_def)
  have h5: "callProperty (Callable (\<lambda>rt k args. (Inl OtherValue, k + 1))) demoRuntime 0 [] =
     (Inl OtherValue, 1)"
    by (simp add: callProperty_def)
  show ?thesis
    using h1 h2 h3 h4 h5 g1 g2
      dispatch_never_throws[of commands demoRuntime 0 "js ''__proto__''" "js ''__proto__''" "[]"
        NotCallable "js ''commands[command] is not a function''" 0]
      dispatch_never_throws[of "\<lambda>name. Some (Callable (\<lambda>rt k args. (Inl OtherValue, k + 1)))"
        demoRuntime 0 "js ''boom''" "js ''boom''" "[]"
        "Callable (\<lambda>rt k args. (Inl OtherValue, k + 1))" _ 1]
    by blast
qed

text \<open>C8 (as amended). For every input whose command token (the part of the trimmed,
  lowercased input before its first space) is not \<open>clear\<close> or \<open>reload\<close>, not a registered
  command and not a property name the registry inherits (\<open>constructor\<close>, \<open>__proto__\<close>),
  \<open>getCommandOutput\<close> returns a result with the error flag set whose content is
  \<open>Command not found:\<close>, the token as lowercased by \<open>toLowerCase\<close>, and the suggestion to
  type \<open>help\<close>; no random draw is made.\<close>

theorem unknown_command_error:
  assumes "parseInput rt raw = (command, args)"
    and "command \<noteq> js ''clear''" and "command \<noteq> js ''reload''"
    and "command \<notin> set registeredNames" and "command \<notin> set inheritedNames"
  shows "getCommandOutput rt k raw =
     (Inr (Output \<lparr>content = Segs
             [text_error (js ''Command not found: '' @ command @ js ''. '') False,
              text_default (js ''Type '') False,
              text_primary (js ''help'') True,
              text_default (js '' for available commands.\<newline>'') False],
           error = True\<rparr>), k)"
  using dispatch_unknown[where reg = commands, OF assms(1-3), of k] assms(4,5)
  by (simp add: getCommandOutput_def commands_None_iff notFoundOutput_def)

text \<open>An instance: \<open>FOO\<close>.\<close>

theorem unknown_command_error_witness:
  "parseInput demoRuntime (js ''FOO'') = (js ''foo'', []) \<and>
   js ''foo'' \<noteq> js ''clear'' \<and> js ''foo'' \<noteq> js ''reload'' \<and>
   js ''foo'' \<notin> set registeredNames \<and> js ''foo'' \<notin> set inheritedNames \<and>
   getCommandOutput demoRuntime 0 (js ''FOO'') =
     (Inr (Output \<lparr>content = Segs
             [text_error (js ''Command not found: foo. '') False,
              text_default (js ''Type '') False,
              text_primary (js ''help'') True,
              text_default (js '' for available commands.\<newline>'') False],
           error = True\<rparr>), 0)"
proof -
  have h2: "js ''foo'' \<noteq> js ''clear''" and h3: "js ''foo'' \<noteq> js ''reload''"
    by (simp_all add: js_def)
  have h4: "js ''foo'' \<notin> set registeredNames" by (simp add: registeredNames_def js_def)
  have h5: "js ''foo'' \<notin> set inheritedNames" by (simp add: inheritedNames_def js_def)
  have e: "js ''Command not found: '' @ js ''foo'' @ js ''. '' = js ''Command not found: foo. ''"
    by (simp add: js_def)
  show ?thesis
    using parse_FOO h2 h3 h4 h5 unknown_command_error[OF parse_FOO h2 h3 h4 h5, of 0]
    by (simp add: e)
qed

text \<open>C8 as stated fails: the token typed \<open>FOO\<close> is echoed as \<open>foo\<close>, and \<open>FOO\<close> occurs
  nowhere in the message.\<close>

theorem unknown_token_lowercased_counterexample:
  "fst (getCommandOutput demoRuntime 0 (js ''FOO'')) = Inr (Output (notFoundOutput (js ''foo''))) \<and>
   \<not> includes_str (contentText (content (notFoundOutput (js ''foo'')))) (js ''FOO'')"
proof -
  have "js ''foo'' \<noteq> js ''clear''" "js ''foo'' \<noteq> js ''reload''" by (simp_all add: js_def)
  moreover have "commands (js ''foo'') = None" by (simp add: commands_def js_def)
  ultimately have "getCommandOutput demoRuntime 0 (js ''FOO'') =
      (Inr (Output (notFoundOutput (js ''foo''))), 0)"
    unfolding getCommandOutput_def by (rule dispatch_unknown[where reg = commands, OF parse_FOO])
  moreover have "\<not> includes_str (contentText (content (notFoundOutput (js ''foo'')))) (js ''FOO'')"
    by (simp add: notFoundOutput_def formatToString_def js_def text_error_def text_default_def
          text_primary_def mkText_def)
  ultimately show ?thesis by simp
qed

text \<open>C9. When the session is busy, and also when the input is blank after trimming,
  \<open>handleCommand\<close> changes nothing: the state, and with it the transcript and the
  history, is the one before the call.\<close>

theorem busy_or_blank_submit_is_noop:
  assumes "isProcessing s \<or> trim command = []"
  shows "handleCommand rt k now s command = (s, k, False) \<and>
         length (lines (fst (handleCommand rt k now s command))) = length (lines s) \<and>
         history (fst (handleCommand rt k now s command)) = history s"
  using assms by (auto simp: handleCommand_def)

text \<open>Two instances: a command submitted to a busy session, and a blank input.\<close>

theorem busy_or_blank_submit_is_noop_witness:
  "isProcessing (initialState\<lparr>isProcessing := True\<rparr>) \<and>
   handleCommand demoRuntime 0 (\<lambda>i. 1000 + i) (initialState\<lparr>isProcessing := True\<rparr>) (js ''help'')
     = (initialState\<lparr>isProcessing := True\<rparr>, 0, False) \<and>
   trim (js ''   '') = [] \<and>
   handleCommand demoRuntime 0 (\<lambda>i. 1000 + i) initialState (js ''   '') = (initialState, 0, False)"
proof -
  have h1: "isProcessing (initialState\<lparr>isProcessing := True\<rparr>) \<or> trim (js ''help'') = []" by simp
  have t: "trim (js ''   '') = []" by (simp add: trim_def js_def isWhiteSpace_def)
  then have h2: "isProcessing initialState \<or> trim (js ''   '') = []" by simp
  show ?thesis
    using t busy_or_blank_submit_is_noop[OF h1, of demoRuntime 0 "\<lambda>i. 1000 + i"]
      busy_or_blank_submit_is_noop[OF h2, of demoRuntime 0 "\<lambda>i. 1000 + i"]
    by simp
qed

text \<open>C10. For every argument list the \<open>sudo\<close> handler returns a result with the error
  flag false, which \<open>handleCommand\<close> renders as an output line; this holds also when the
  arguments contain none of \<open>update\<close>, \<open>upgrade\<close>, \<open>install\<close> and the content ends with the
  message \<open>sudo: <arg>: command not found\<close>.\<close>

theorem sudo_never_flags_error:
  "\<exists>out k'. cmd_sudo rt k args = (Inr (Output out), k') \<and> error out = False \<and>
      outputTypeOf (Output out) = OutputLine \<and>
      commands (js ''sudo'') = Some (Callable cmd_sudo) \<and>
      (\<not> isUpdateCommand rt args \<longrightarrow>
         args \<noteq> [] \<and> k' = k \<and>
         content out = Segs
           [text_primary (js ''[sudo] '') True,
            text_default (js ''password for user: '') False,
            text_muted (js ''***************\<newline>\<newline>'') False,
            text_error (js ''sudo: '' @ hd args @ js '': command not found\<newline>'') False])"
proof (cases "isUpdateCommand rt args")
  case True
  obtain c k' where "cmd_sudo rt k args = (Inr (Output \<lparr>content = c, error = False\<rparr>), k')"
    using cmd_sudo_shape by blast
  then show ?thesis
    using True by (simp add: outputTypeOf_def commands_sudo)
next
  case False
  then have ne: "args \<noteq> []" by (auto simp: isUpdateCommand_def Let_def)
  then have "firstArg args = hd args" by (cases args) (simp_all add: firstArg_def)
  then show ?thesis
    using False ne
    by (simp add: cmd_sudo_def outputTypeOf_def commands_sudo sudoNotFoundOutput_def)
qed

text \<open>An instance: the argument \<open>foo\<close>.\<close>

theorem sudo_never_flags_error_witness:
  "\<not> isUpdateCommand demoRuntime [js ''foo''] \<and>
   cmd_sudo demoRuntime 0 [js ''foo''] =
     (Inr (Output \<lparr>content = Segs
             [text_primary (js ''[sudo] '') True,
              text_default (js ''password for user: '') False,
              text_muted (js ''***************\<newline>\<newline>'') False,
              text_error (js ''sudo: foo: command not found\<newline>'') False],
           error = False\<rparr>), 0)"
proof -
  have nu: "\<not> isUpdateCommand demoRuntime [js ''foo'']"
    by (simp add: isUpdateCommand_def js_def demoRuntime_def asciiLowerCase_def asciiLowerUnit_def)
  have e: "js ''sudo: '' @ hd [js ''foo''] @ js '': command not found\<newline>''
         = js ''sudo: foo: command not found\<newline>''"
    by (simp add: js_def)
  from sudo_never_flags_error[of demoRuntime 0 "[js ''foo'']"]
  obtain out k' where o: "cmd_sudo demoRuntime 0 [js ''foo''] = (Inr (Output out), k')"
      "error out = False" "k' = 0"
      "content out = Segs
           [text_primary (js ''[sudo] '') True,
            text_default (js ''password for user: '') False,
            text_muted (js ''***************\<newline>\<newline>'') False,
            text_error (js ''sudo: '' @ hd [js ''foo''] @ js '': command not found\<newline>'') False]"
    using nu by blast
  have "out = \<lparr>content = content out, error = error out\<rparr>" by simp
  then show ?thesis
    using nu o unfolding e by simp
qed

end
